theory Spec2Isabelle
  imports Main "HOL-Library.Word"
begin

section \<open>The GetResponse client: a shallow embedding\<close>

text \<open>
  The repository holds two clients for the contacts API of GetResponse.
  \<^item> \<^verbatim>\<open>src/getresponse/client.go\<close> sends its requests through a \<^verbatim>\<open>BaseClient\<close>
    (\<^verbatim>\<open>src/getresponse/http.go\<close>). Its definitions carry the suffix \<open>_base\<close>.
  \<^item> The second Go file inside \<^verbatim>\<open>src/getresponse/client_test.go\<close> (from line 442) sends its
    requests through a \<^verbatim>\<open>*http.Client\<close> in \<^verbatim>\<open>roundTrip\<close>. Its definitions carry the suffix
    \<open>_http\<close>. The tests in the first part of that file call this client.

  Byte slices and Go strings are \<^typ>\<open>string\<close> (a list of 8-bit characters). Go's \<^verbatim>\<open>int\<close> is
  \<^typ>\<open>int\<close>, with the 64-bit range checked where the library checks it.
\<close>

type_synonym bytes = string

section \<open>encoding/json: syntax\<close>

text \<open>
  \<^verbatim>\<open>json.Unmarshal\<close> belongs to Go's standard library. Both clients decide what to return
  from its result, so its behaviour on the input is modelled here: first the syntax check
  of the whole input (\<^verbatim>\<open>checkValid\<close>), then the decoding into the target.

  The syntax check is a scanner over the bytes. It is modelled in two passes with the same
  language: \<open>lex\<close> cuts the input into tokens, \<open>parse\<close> reads the tokens with an explicit
  stack of the open arrays and objects.
\<close>

datatype json =
    JNull
  | JBool bool
  | JNumber string
  | JString string
  | JArray "json list"
  | JObject "(string \<times> json) list"

text \<open>
  A piece of a string literal: a byte (written as it is, or by a simple escape), or the
  16-bit unit of a \<^verbatim>\<open>\uXXXX\<close> escape.
\<close>

datatype piece = Byte char | Unit nat

datatype token =
    TLBrace | TRBrace | TLBracket | TRBracket | TColon | TComma
  | TString "piece list" | TNumber string | TTrue | TFalse | TNull

text \<open>Where the scanner stands inside a number literal.\<close>

datatype numstate = NNeg | NZero | NInt | NDot | NFrac | NE | NESign | NExp

datatype lexmode =
    MTop
  | MStr "piece list"
  | MEsc "piece list"
  | MUni "piece list" nat nat
  | MNum string numstate
  | MLit string token

definition is_space :: "char \<Rightarrow> bool" where
  "is_space c = (c = CHR '' '' \<or> c = CHR 0x09 \<or> c = CHR 0x0D \<or> c = CHR 0x0A)"

definition is_digit :: "char \<Rightarrow> bool" where
  "is_digit c = (48 \<le> (of_char c :: nat) \<and> (of_char c :: nat) \<le> 57)"

definition hex_val :: "char \<Rightarrow> nat option" where
  "hex_val c = (let n = (of_char c :: nat) in
     if 48 \<le> n \<and> n \<le> 57 then Some (n - 48)
     else if 97 \<le> n \<and> n \<le> 102 then Some (n - 87)
     else if 65 \<le> n \<and> n \<le> 70 then Some (n - 55)
     else None)"

definition num_final :: "numstate \<Rightarrow> bool" where
  "num_final st = (st = NZero \<or> st = NInt \<or> st = NFrac \<or> st = NExp)"

fun num_step :: "numstate \<Rightarrow> char \<Rightarrow> numstate option" where
  "num_step NNeg c = (if c = CHR ''0'' then Some NZero else if is_digit c then Some NInt else None)"
| "num_step NZero c =
     (if c = CHR ''.'' then Some NDot else if c = CHR ''e'' \<or> c = CHR ''E'' then Some NE else None)"
| "num_step NInt c =
     (if is_digit c then Some NInt else if c = CHR ''.'' then Some NDot
      else if c = CHR ''e'' \<or> c = CHR ''E'' then Some NE else None)"
| "num_step NDot c = (if is_digit c then Some NFrac else None)"
| "num_step NFrac c =
     (if is_digit c then Some NFrac else if c = CHR ''e'' \<or> c = CHR ''E'' then Some NE else None)"
| "num_step NE c =
     (if c = CHR ''+'' \<or> c = CHR ''-'' then Some NESign else if is_digit c then Some NExp else None)"
| "num_step NESign c = (if is_digit c then Some NExp else None)"
| "num_step NExp c = (if is_digit c then Some NExp else None)"

text \<open>The byte a simple escape \<^verbatim>\<open>\c\<close> stands for.\<close>

definition escape_byte :: "char \<Rightarrow> char option" where
  "escape_byte c =
     (if c = CHR ''b'' then Some (CHR 0x08)
      else if c = CHR ''f'' then Some (CHR 0x0C)
      else if c = CHR ''n'' then Some (CHR 0x0A)
      else if c = CHR ''r'' then Some (CHR 0x0D)
      else if c = CHR ''t'' then Some (CHR 0x09)
      else if c = CHR 0x5C \<or> c = CHR ''/'' \<or> c = CHR 0x22 then Some c
      else None)"

text \<open>
  What a byte starts when the scanner expects a token: nothing (white space), a
  one-byte token, or a longer token read in another mode.
\<close>

definition top_step :: "char \<Rightarrow> (lexmode \<times> token list) option" where
  "top_step c =
     (if is_space c then Some (MTop, [])
      else if c = CHR ''{'' then Some (MTop, [TLBrace])
      else if c = CHR ''}'' then Some (MTop, [TRBrace])
      else if c = CHR ''['' then Some (MTop, [TLBracket])
      else if c = CHR '']'' then Some (MTop, [TRBracket])
      else if c = CHR '':'' then Some (MTop, [TColon])
      else if c = CHR '','' then Some (MTop, [TComma])
      else if c = CHR 0x22 then Some (MStr [], [])
      else if c = CHR ''-'' then Some (MNum [c] NNeg, [])
      else if c = CHR ''0'' then Some (MNum [c] NZero, [])
      else if is_digit c then Some (MNum [c] NInt, [])
      else if c = CHR ''t'' then Some (MLit ''rue'' TTrue, [])
      else if c = CHR ''f'' then Some (MLit ''alse'' TFalse, [])
      else if c = CHR ''n'' then Some (MLit ''ull'' TNull, [])
      else None)"

text \<open>
  The tokens of the input, or \<open>None\<close> where the scanner reports a syntax error. The
  accumulators hold their contents in reverse. A number ends at the first byte that cannot
  continue it; that byte is then read again as the start of the next token.
\<close>

fun lex :: "lexmode \<Rightarrow> token list \<Rightarrow> string \<Rightarrow> token list option" where
  "lex MTop acc [] = Some (rev acc)"
| "lex (MNum lit st) acc [] =
     (if num_final st then Some (rev (TNumber (rev lit) # acc)) else None)"
| "lex (MStr ps) acc [] = None"
| "lex (MEsc ps) acc [] = None"
| "lex (MUni ps k v) acc [] = None"
| "lex (MLit r t) acc [] = None"
| "lex MTop acc (c # cs) =
     (case top_step c of
        None \<Rightarrow> None
      | Some (m, ts) \<Rightarrow> lex m (ts @ acc) cs)"
| "lex (MStr ps) acc (c # cs) =
     (if c = CHR 0x22 then lex MTop (TString (rev ps) # acc) cs
      else if c = CHR 0x5C then lex (MEsc ps) acc cs
      else if (of_char c :: nat) < 32 then None
      else lex (MStr (Byte c # ps)) acc cs)"
| "lex (MEsc ps) acc (c # cs) =
     (if c = CHR ''u'' then lex (MUni ps 0 0) acc cs
      else (case escape_byte c of
              None \<Rightarrow> None
            | Some b \<Rightarrow> lex (MStr (Byte b # ps)) acc cs))"
| "lex (MUni ps k v) acc (c # cs) =
     (case hex_val c of
        None \<Rightarrow> None
      | Some d \<Rightarrow>
          if k = 3 then lex (MStr (Unit (16 * v + d) # ps)) acc cs
          else lex (MUni ps (Suc k) (16 * v + d)) acc cs)"
| "lex (MLit r t) acc (c # cs) =
     (case r of
        [] \<Rightarrow> None
      | x # xs \<Rightarrow>
          if c \<noteq> x then None
          else if xs = [] then lex MTop (t # acc) cs
          else lex (MLit xs t) acc cs)"
| "lex (MNum lit st) acc (c # cs) =
     (case num_step st c of
        Some st' \<Rightarrow> lex (MNum (c # lit) st') acc cs
      | None \<Rightarrow>
          if num_final st
          then (case top_step c of
                  None \<Rightarrow> None
                | Some (m, ts) \<Rightarrow> lex m (ts @ TNumber (rev lit) # acc) cs)
          else None)"

text \<open>
  The bytes a string literal stands for (\<^verbatim>\<open>unquote\<close>). A \<^verbatim>\<open>\uXXXX\<close> escape is written in
  UTF-8; a high surrogate followed at once by the escape of a low surrogate is one code
  point; a surrogate without its partner, and every byte that does not start a well-formed
  UTF-8 sequence, becomes U+FFFD.
\<close>

definition utf8_encode :: "nat \<Rightarrow> string" where
  "utf8_encode r =
     (if r < 0x80 then [char_of r]
      else if r < 0x800 then [char_of (0xC0 + r div 64), char_of (0x80 + r mod 64)]
      else if r < 0x10000 then
        [char_of (0xE0 + r div 4096), char_of (0x80 + (r div 64) mod 64), char_of (0x80 + r mod 64)]
      else
        [char_of (0xF0 + r div 262144), char_of (0x80 + (r div 4096) mod 64),
         char_of (0x80 + (r div 64) mod 64), char_of (0x80 + r mod 64)])"

definition replacement :: string where
  "replacement = utf8_encode 0xFFFD"

definition in_range :: "nat \<Rightarrow> nat \<Rightarrow> piece \<Rightarrow> bool" where
  "in_range lo hi p =
     (case p of Byte b \<Rightarrow> lo \<le> (of_char b :: nat) \<and> (of_char b :: nat) \<le> hi | Unit u \<Rightarrow> False)"

text \<open>
  The length of the well-formed UTF-8 sequence that the byte \<open>b0\<close> starts when \<open>ps\<close>
  follows it, or \<open>0\<close> when there is none (\<^verbatim>\<open>utf8.DecodeRune\<close>'s table of first bytes and
  accepted ranges of the second byte).
\<close>

definition utf8_len :: "nat \<Rightarrow> piece list \<Rightarrow> nat" where
  "utf8_len b0 ps =
     (if 0xC2 \<le> b0 \<and> b0 \<le> 0xDF then
        (case ps of
           p1 # r1 \<Rightarrow> if in_range 0x80 0xBF p1 then 2 else 0
         | [] \<Rightarrow> 0)
      else if 0xE0 \<le> b0 \<and> b0 \<le> 0xEF then
        (case ps of
           p1 # p2 # r2 \<Rightarrow>
             if in_range (if b0 = 0xE0 then 0xA0 else 0x80) (if b0 = 0xED then 0x9F else 0xBF) p1
                \<and> in_range 0x80 0xBF p2
             then 3 else 0
         | _ \<Rightarrow> 0)
      else if 0xF0 \<le> b0 \<and> b0 \<le> 0xF4 then
        (case ps of
           p1 # p2 # p3 # r3 \<Rightarrow>
             if in_range (if b0 = 0xF0 then 0x90 else 0x80) (if b0 = 0xF4 then 0x8F else 0xBF) p1
                \<and> in_range 0x80 0xBF p2 \<and> in_range 0x80 0xBF p3
             then 4 else 0
         | _ \<Rightarrow> 0)
      else 0)"

text \<open>\<open>unquote k ps\<close>: the first \<open>k\<close> pieces continue a sequence already found well-formed.\<close>

fun unquote :: "nat \<Rightarrow> piece list \<Rightarrow> string" where
  "unquote k [] = []"
| "unquote k (Byte b # ps) =
     (if 0 < k then b # unquote (k - 1) ps
      else if (of_char b :: nat) < 0x80 then b # unquote 0 ps
      else (case utf8_len (of_char b) ps of
              0 \<Rightarrow> replacement @ unquote 0 ps
            | Suc n \<Rightarrow> b # unquote n ps))"
| "unquote k (Unit u # ps) =
     (if 0xD800 \<le> u \<and> u < 0xE000 then
        (case ps of
           Unit u2 # ps' \<Rightarrow>
             if u < 0xDC00 \<and> 0xDC00 \<le> u2 \<and> u2 < 0xE000
             then utf8_encode ((u - 0xD800) * 1024 + (u2 - 0xDC00) + 0x10000) @ unquote 0 ps'
             else replacement @ unquote 0 ps
         | _ \<Rightarrow> replacement @ unquote 0 ps)
      else utf8_encode u @ unquote 0 ps)"

text \<open>
  The parser keeps one frame for each open array or object: the elements or members read
  so far (in reverse), and for an object whose key has been read, that key.
\<close>

datatype frame =
    FArr "json list"
  | FObj "(string \<times> json) list"
  | FKey "(string \<times> json) list" string

datatype pstate = SValue | SArrStart | SObjStart | SKey | SColon | SAfter | SDone json

text \<open>The scanner refuses more than 10000 open arrays and objects (Go 1.15 and later).\<close>

definition maxNestingDepth :: nat where
  "maxNestingDepth = 10000"

definition close_value :: "json \<Rightarrow> frame list \<Rightarrow> (pstate \<times> frame list) option" where
  "close_value v st =
     (case st of
        [] \<Rightarrow> Some (SDone v, [])
      | FArr els # fs \<Rightarrow> Some (SAfter, FArr (v # els) # fs)
      | FKey ms k # fs \<Rightarrow> Some (SAfter, FObj ((k, v) # ms) # fs)
      | FObj ms # fs \<Rightarrow> None)"

definition begin_value :: "token \<Rightarrow> frame list \<Rightarrow> (pstate \<times> frame list) option" where
  "begin_value t st =
     (case t of
        TLBracket \<Rightarrow> if length st < maxNestingDepth then Some (SArrStart, FArr [] # st) else None
      | TLBrace \<Rightarrow> if length st < maxNestingDepth then Some (SObjStart, FObj [] # st) else None
      | TString ps \<Rightarrow> close_value (JString (unquote 0 ps)) st
      | TNumber lit \<Rightarrow> close_value (JNumber lit) st
      | TTrue \<Rightarrow> close_value (JBool True) st
      | TFalse \<Rightarrow> close_value (JBool False) st
      | TNull \<Rightarrow> close_value JNull st
      | _ \<Rightarrow> None)"

definition read_key :: "token \<Rightarrow> frame list \<Rightarrow> (pstate \<times> frame list) option" where
  "read_key t st =
     (case (t, st) of
        (TString ps, FObj ms # fs) \<Rightarrow> Some (SColon, FKey ms (unquote 0 ps) # fs)
      | _ \<Rightarrow> None)"

definition end_array :: "frame list \<Rightarrow> (pstate \<times> frame list) option" where
  "end_array st = (case st of FArr els # fs \<Rightarrow> close_value (JArray (rev els)) fs | _ \<Rightarrow> None)"

definition end_object :: "frame list \<Rightarrow> (pstate \<times> frame list) option" where
  "end_object st = (case st of FObj ms # fs \<Rightarrow> close_value (JObject (rev ms)) fs | _ \<Rightarrow> None)"

definition pstep :: "pstate \<Rightarrow> frame list \<Rightarrow> token \<Rightarrow> (pstate \<times> frame list) option" where
  "pstep s st t =
     (case s of
        SValue \<Rightarrow> begin_value t st
      | SArrStart \<Rightarrow> if t = TRBracket then end_array st else begin_value t st
      | SObjStart \<Rightarrow> if t = TRBrace then end_object st else read_key t st
      | SKey \<Rightarrow> read_key t st
      | SColon \<Rightarrow> if t = TColon then Some (SValue, st) else None
      | SAfter \<Rightarrow>
          (case st of
             FArr els # fs \<Rightarrow>
               if t = TComma then Some (SValue, st)
               else if t = TRBracket then end_array st else None
           | FObj ms # fs \<Rightarrow>
               if t = TComma then Some (SKey, st)
               else if t = TRBrace then end_object st else None
           | _ \<Rightarrow> None)
      | SDone v \<Rightarrow> None)"

fun parse :: "pstate \<Rightarrow> frame list \<Rightarrow> token list \<Rightarrow> json option" where
  "parse s st [] = (case s of SDone v \<Rightarrow> Some v | _ \<Rightarrow> None)"
| "parse s st (t # ts) =
     (case pstep s st t of
        None \<Rightarrow> None
      | Some (s', st') \<Rightarrow> parse s' st' ts)"

text \<open>The value the input denotes, or \<open>None\<close> where \<^verbatim>\<open>checkValid\<close> reports a syntax error.\<close>

definition json_parse :: "bytes \<Rightarrow> json option" where
  "json_parse data = (case lex MTop [] data of None \<Rightarrow> None | Some ts \<Rightarrow> parse SValue [] ts)"

section \<open>encoding/json: decoding into the targets of the clients\<close>

text \<open>
  \<^verbatim>\<open>Unmarshal\<close> reports the first type mismatch it meets but goes on decoding, so a decoder
  returns a flag (a mismatch was met) and the target as it stands afterwards. A target that
  a JSON value does not fit keeps its old contents; \<^verbatim>\<open>null\<close> leaves a number, a string and a
  struct as they are and sets a slice to nil (\<open>None\<close>).
\<close>

datatype json_error = SyntaxError | UnmarshalTypeError

definition decimal :: "string \<Rightarrow> int" where
  "decimal ds = foldl (\<lambda>n c. 10 * n + ((of_char c :: int) - 48)) 0 ds"

text \<open>
  \<^verbatim>\<open>strconv.ParseInt(lit, 10, 64)\<close> on a number literal of JSON: it fails on a fraction or
  an exponent and outside the 64-bit range.
\<close>

definition ParseInt :: "string \<Rightarrow> int option" where
  "ParseInt lit =
     (let n = (case lit of
                 [] \<Rightarrow> None
               | c # ds \<Rightarrow>
                   if c = CHR ''-'' then
                     (if ds \<noteq> [] \<and> list_all is_digit ds then Some (- decimal ds) else None)
                   else if list_all is_digit lit then Some (decimal lit) else None)
      in case n of
           None \<Rightarrow> None
         | Some i \<Rightarrow> if - (2 ^ 63) \<le> i \<and> i < 2 ^ 63 then Some i else None)"

definition store_int :: "json \<Rightarrow> int \<Rightarrow> bool \<times> int" where
  "store_int j old =
     (case j of
        JNumber lit \<Rightarrow> (case ParseInt lit of Some i \<Rightarrow> (False, i) | None \<Rightarrow> (True, old))
      | JNull \<Rightarrow> (False, old)
      | _ \<Rightarrow> (True, old))"

definition store_string :: "json \<Rightarrow> string \<Rightarrow> bool \<times> string" where
  "store_string j old =
     (case j of
        JString s \<Rightarrow> (False, s)
      | JNull \<Rightarrow> (False, old)
      | _ \<Rightarrow> (True, old))"

text \<open>
  A JSON array into a slice: element \<open>i\<close> is decoded into the element the slice already has
  at \<open>i\<close>, or into a zero value beyond its length; the slice ends up as long as the array and
  is not nil, also when the array is empty. (Go leaves old data in the spare capacity of a
  slice it has shortened; a target in that state is not modelled. The clients pass slices
  that are nil or made with length 0.)
\<close>

fun store_elems :: "(json \<Rightarrow> 'a \<Rightarrow> bool \<times> 'a) \<Rightarrow> 'a \<Rightarrow> json list \<Rightarrow> 'a list \<Rightarrow> (bool \<times> 'a) list" where
  "store_elems dec zero [] olds = []"
| "store_elems dec zero (j # js) [] = dec j zero # store_elems dec zero js []"
| "store_elems dec zero (j # js) (x # xs) = dec j x # store_elems dec zero js xs"

definition store_slice ::
  "(json \<Rightarrow> 'a \<Rightarrow> bool \<times> 'a) \<Rightarrow> 'a \<Rightarrow> json \<Rightarrow> 'a list option \<Rightarrow> bool \<times> 'a list option" where
  "store_slice dec zero j old =
     (case j of
        JArray js \<Rightarrow>
          (let rs = store_elems dec zero js (case old of None \<Rightarrow> [] | Some xs \<Rightarrow> xs)
           in (list_ex fst rs, Some (map snd rs)))
      | JNull \<Rightarrow> (False, None)
      | _ \<Rightarrow> (True, old))"

text \<open>
  The key of a member selects the field whose name it equals when letter case is ignored.
  For a field name of ASCII letters the key's bytes are compared one by one; besides the
  two ASCII cases, the Kelvin sign U+212A stands for \<^verbatim>\<open>k\<close> and the long s U+017F for \<^verbatim>\<open>s\<close>.
\<close>

definition upper :: "char \<Rightarrow> char" where
  "upper c = (if 97 \<le> (of_char c :: nat) \<and> (of_char c :: nat) \<le> 122
              then char_of ((of_char c :: nat) - 32) else c)"

fun equalFold :: "string \<Rightarrow> string \<Rightarrow> bool" where
  "equalFold [] k = (k = [])"
| "equalFold (c # cs) [] = False"
| "equalFold (c # cs) (b # bs) =
     (if (of_char b :: nat) < 0x80 then upper b = upper c \<and> equalFold cs bs
      else if upper c = CHR ''K'' \<and> take 3 (b # bs) = [CHR 0xE2, CHR 0x84, CHR 0xAA]
        then equalFold cs (drop 2 bs)
      else if upper c = CHR ''S'' \<and> take 2 (b # bs) = [CHR 0xC5, CHR 0xBF]
        then equalFold cs (drop 1 bs)
      else False)"

subsection \<open>The error shape\<close>

text \<open>\<^verbatim>\<open>GetResponseError\<close> (\<^verbatim>\<open>error.go\<close>) with the JSON names of its tags.\<close>

record GetResponseError =
  HTTPStatus :: int
  ErrorCode :: int
  CodeDescription :: string
  Message :: string
  MoreInfo :: string
  Context :: "string list option"
  UUID :: string

text \<open>The zero value \<^verbatim>\<open>GetResponseError{}\<close>.\<close>

definition zero_GetResponseError :: GetResponseError where
  "zero_GetResponseError =
     \<lparr>HTTPStatus = 0, ErrorCode = 0, CodeDescription = [], Message = [], MoreInfo = [],
      Context = None, UUID = []\<rparr>"

definition store_member :: "bool \<times> GetResponseError \<Rightarrow> string \<times> json \<Rightarrow> bool \<times> GetResponseError" where
  "store_member st kv =
     (case (st, kv) of
        ((bad, g), (k, v)) \<Rightarrow>
          if equalFold ''httpStatus'' k then
            (case store_int v (HTTPStatus g) of (b, x) \<Rightarrow> (bad \<or> b, g\<lparr>HTTPStatus := x\<rparr>))
          else if equalFold ''code'' k then
            (case store_int v (ErrorCode g) of (b, x) \<Rightarrow> (bad \<or> b, g\<lparr>ErrorCode := x\<rparr>))
          else if equalFold ''codeDescription'' k then
            (case store_string v (CodeDescription g) of (b, x) \<Rightarrow> (bad \<or> b, g\<lparr>CodeDescription := x\<rparr>))
          else if equalFold ''message'' k then
            (case store_string v (Message g) of (b, x) \<Rightarrow> (bad \<or> b, g\<lparr>Message := x\<rparr>))
          else if equalFold ''moreInfo'' k then
            (case store_string v (MoreInfo g) of (b, x) \<Rightarrow> (bad \<or> b, g\<lparr>MoreInfo := x\<rparr>))
          else if equalFold ''context'' k then
            (case store_slice store_string [] v (Context g) of (b, x) \<Rightarrow> (bad \<or> b, g\<lparr>Context := x\<rparr>))
          else if equalFold ''uuid'' k then
            (case store_string v (UUID g) of (b, x) \<Rightarrow> (bad \<or> b, g\<lparr>UUID := x\<rparr>))
          else (bad, g))"

text \<open>
  An object sets the fields its members name, in the order of the members; a member with
  an unknown key is skipped. Anything else but \<^verbatim>\<open>null\<close> does not fit a struct.
\<close>

definition store_GetResponseError :: "json \<Rightarrow> GetResponseError \<Rightarrow> bool \<times> GetResponseError" where
  "store_GetResponseError j g =
     (case j of
        JObject ms \<Rightarrow> foldl store_member (False, g) ms
      | JNull \<Rightarrow> (False, g)
      | _ \<Rightarrow> (True, g))"

text \<open>
  \<^verbatim>\<open>json.Unmarshal(data, &v)\<close> with the decoder of the target's type: a syntax error leaves
  the target untouched.
\<close>

definition json_Unmarshal ::
  "(json \<Rightarrow> 'a \<Rightarrow> bool \<times> 'a) \<Rightarrow> bytes \<Rightarrow> 'a \<Rightarrow> json_error option \<times> 'a" where
  "json_Unmarshal dec data v =
     (case json_parse data of
        None \<Rightarrow> (Some SyntaxError, v)
      | Some j \<Rightarrow>
          (case dec j v of (bad, v') \<Rightarrow> (if bad then Some UnmarshalTypeError else None, v')))"

section \<open>net/url and net/http: what the clients use\<close>

text \<open>
  \<^verbatim>\<open>url.Values\<close> is a Go map from a key to its values. It is an association list with at most
  one entry for a key; \<^verbatim>\<open>Encode\<close> sorts the keys, so the order of the entries does not
  show.
\<close>

type_synonym Values = "(string \<times> string list) list"

fun Values_Set :: "Values \<Rightarrow> string \<Rightarrow> string \<Rightarrow> Values" where
  "Values_Set [] k v = [(k, [v])]"
| "Values_Set ((k', vs) # q) k v =
     (if k' = k then (k, [v]) # q else (k', vs) # Values_Set q k v)"

definition hex_digit :: "nat \<Rightarrow> char" where
  "hex_digit n = (if n < 10 then char_of (48 + n) else char_of (55 + n))"

definition is_alnum :: "char \<Rightarrow> bool" where
  "is_alnum c =
     (let n = (of_char c :: nat)
      in (97 \<le> n \<and> n \<le> 122) \<or> (65 \<le> n \<and> n \<le> 90) \<or> (48 \<le> n \<and> n \<le> 57))"

text \<open>
  \<^verbatim>\<open>url.QueryEscape\<close>: letters, digits and \<^verbatim>\<open>-_.~\<close> stay, a space becomes \<^verbatim>\<open>+\<close>, every other
  byte becomes \<^verbatim>\<open>%XX\<close> in upper-case hexadecimal.
\<close>

definition escape_query_byte :: "char \<Rightarrow> string" where
  "escape_query_byte c =
     (if is_alnum c \<or> c = CHR ''-'' \<or> c = CHR ''_'' \<or> c = CHR ''.'' \<or> c = CHR ''~'' then [c]
      else if c = CHR '' '' then ''+''
      else [CHR ''%'', hex_digit ((of_char c :: nat) div 16), hex_digit ((of_char c :: nat) mod 16)])"

definition QueryEscape :: "string \<Rightarrow> string" where
  "QueryEscape s = concat (map escape_query_byte s)"

text \<open>Go compares strings byte by byte.\<close>

fun bytes_less :: "string \<Rightarrow> string \<Rightarrow> bool" where
  "bytes_less [] [] = False"
| "bytes_less [] (y # ys) = True"
| "bytes_less (x # xs) [] = False"
| "bytes_less (x # xs) (y # ys) =
     ((of_char x :: nat) < of_char y \<or> (x = y \<and> bytes_less xs ys))"

fun insert_key :: "string \<times> string list \<Rightarrow> Values \<Rightarrow> Values" where
  "insert_key e [] = [e]"
| "insert_key e (x # xs) = (if bytes_less (fst x) (fst e) then x # insert_key e xs else e # x # xs)"

definition sort_keys :: "Values \<Rightarrow> Values" where
  "sort_keys q = foldr insert_key q []"

fun join :: "string list \<Rightarrow> string \<Rightarrow> string" where
  "join [] sep = []"
| "join [x] sep = x"
| "join (x # y # ys) sep = x @ sep @ join (y # ys) sep"

text \<open>\<^verbatim>\<open>Values.Encode\<close>: \<^verbatim>\<open>key=value\<close> for every value of every key, keys in sorted order.\<close>

definition Values_Encode :: "Values \<Rightarrow> string" where
  "Values_Encode q =
     join (concat (map (\<lambda>(k, vs). map (\<lambda>v. QueryEscape k @ ''='' @ QueryEscape v) vs) (sort_keys q)))
       ''&''"

text \<open>The fields of \<^verbatim>\<open>url.URL\<close> that the clients set or that a request shows.\<close>

record URL =
  Scheme :: string
  Host :: string
  Path :: string
  RawQuery :: string

definition zero_URL :: URL where
  "zero_URL = \<lparr>Scheme = [], Host = [], Path = [], RawQuery = []\<rparr>"

text \<open>
  \<^verbatim>\<open>http.Header\<close> maps a canonical key to its values. \<^verbatim>\<open>Set\<close> replaces the values of the
  key after \<^verbatim>\<open>textproto.CanonicalMIMEHeaderKey\<close>: when every byte of the key may stand in
  a header name, the first letter and each letter after a hyphen become upper case and
  the other letters lower case; otherwise the key is left as it is.
\<close>

type_synonym Header = "string \<Rightarrow> string list option"

definition lower :: "char \<Rightarrow> char" where
  "lower c = (if 65 \<le> (of_char c :: nat) \<and> (of_char c :: nat) \<le> 90
              then char_of ((of_char c :: nat) + 32) else c)"

definition validHeaderFieldByte :: "char \<Rightarrow> bool" where
  "validHeaderFieldByte c = (is_alnum c \<or> c \<in> set ''!#$%&*+-.^_`|~'' \<or> c = CHR 0x27)"

fun canonical :: "bool \<Rightarrow> string \<Rightarrow> string" where
  "canonical up [] = []"
| "canonical up (c # cs) = (if up then upper c else lower c) # canonical (c = CHR ''-'') cs"

definition CanonicalMIMEHeaderKey :: "string \<Rightarrow> string" where
  "CanonicalMIMEHeaderKey k = (if list_all validHeaderFieldByte k then canonical True k else k)"

definition Header_Set :: "Header \<Rightarrow> string \<Rightarrow> string \<Rightarrow> Header" where
  "Header_Set h k v = h(CanonicalMIMEHeaderKey k \<mapsto> [v])"

text \<open>A \<^verbatim>\<open>context.Context\<close> is an opaque handle; \<open>None\<close> is the nil context.\<close>

datatype ctx = Ctx nat

text \<open>
  An outbound \<^verbatim>\<open>http.Request\<close>. \<open>Body\<close> is the content of the body reader, \<open>None\<close> for a
  nil reader; \<open>Ctx\<close> is \<open>None\<close> until \<^verbatim>\<open>WithContext\<close> binds a context.
\<close>

record Request =
  Method :: string
  URL :: URL
  Header :: Header
  Body :: "bytes option"
  Ctx :: "ctx option"

section \<open>Errors\<close>

text \<open>
  The values of Go's \<^verbatim>\<open>error\<close> that the clients return:
  \<^item> \<open>ErrCouldNotUnmarshal\<close>, the package variable of both clients;
  \<^item> \<open>errors_New s\<close>, a value made by \<^verbatim>\<open>errors.New(s)\<close>;
  \<^item> \<open>JsonError e\<close>, the error \<^verbatim>\<open>json.Unmarshal\<close> returned;
  \<^item> \<open>RemoteError g\<close>, a \<^verbatim>\<open>*GetResponseError\<close>;
  \<^item> \<open>RawError err status body\<close>, a \<^verbatim>\<open>*GetResponseErrorRaw\<close> with its fields
    \<^verbatim>\<open>Err\<close>, \<^verbatim>\<open>HTTPStatus\<close>, \<^verbatim>\<open>HTTPBody\<close>;
  \<^item> \<open>DataError err code msg\<close>, the value of \<^verbatim>\<open>glitch.NewDataError(err, code, msg)\<close>;
  \<^item> \<open>LibraryError s\<close>, an error of the standard library (parsing a URL, building or
    sending a request, reading a body, marshalling), told apart by \<open>s\<close>.
\<close>

datatype error =
    ErrCouldNotUnmarshal
  | errors_New string
  | JsonError json_error
  | RemoteError GetResponseError
  | RawError error int bytes
  | DataError error string string
  | LibraryError string

text \<open>
  The method \<^verbatim>\<open>Error()\<close>, where the sources fix its text: \<^verbatim>\<open>error.go\<close> for the two error
  structs, the argument for \<^verbatim>\<open>errors.New\<close>. The texts that libraries compose are not
  modelled (\<open>None\<close>).
\<close>

fun Error :: "error \<Rightarrow> string option" where
  "Error ErrCouldNotUnmarshal = Some ''could not unmarshal''"
| "Error (errors_New s) = Some s"
| "Error (RemoteError g) = Some (Message g)"
| "Error (RawError err status body) = Error err"
| "Error (JsonError e) = None"
| "Error (DataError err code msg) = None"
| "Error (LibraryError s) = None"

text \<open>
  What a transport hands back for a request: an error, or the response with its status
  and the outcome of reading its body to the end (\<^verbatim>\<open>ioutil.ReadAll\<close>).
\<close>

record Response =
  StatusCode :: int
  ReadAll :: "error + bytes"

type_synonym RoundTripper = "Request \<Rightarrow> error + Response"

text \<open>
  An exchange with the transport: a request handed to \<^verbatim>\<open>Do\<close> and what came back. The
  functions that send requests return the list of their exchanges next to their result:
  sending is their effect.
\<close>

type_synonym exchange = "Request \<times> (error + Response)"

text \<open>
  \<^verbatim>\<open>http.Client\<close>. Time is not modelled: a request that runs into the timeout is a
  transport that returns an error.
\<close>

record http_Client =
  Timeout :: int
  Transport :: RoundTripper

definition Do :: "http_Client \<Rightarrow> Request \<Rightarrow> error + Response" where
  "Do cl req = Transport cl req"

section \<open>The payload types\<close>

text \<open>
  \<^verbatim>\<open>Campaign\<close> and \<^verbatim>\<open>CustomField\<close> are declared outside the sources at hand; they are
  written as the tests build them. The request structs are those of \<^verbatim>\<open>src/unnamed/part_000\<close>
  (from line 28) and the two that \<^verbatim>\<open>client.go\<close> fills, each with its fields in the order
  of the source. \<^verbatim>\<open>Contact\<close> is declared outside the sources too: it is the type
  parameter \<open>'c\<close>, and how JSON is decoded into it is a parameter (below).
\<close>

datatype Campaign = Campaign string

datatype CustomField = CustomField string "string list"

datatype CreateContactRequest =
  CreateContactRequest "string option" string "32 word option" Campaign "CustomField list" "string option"

datatype 'c UpdateContactRequest = UpdateContactRequest string 'c

datatype GetContactRequest = GetContactRequest string "string list"

datatype GetContactsRequest =
  GetContactsRequest "(string \<times> string) list" "string list" "(string \<times> string) list"
    "32 word" "32 word" "string option"

datatype UpdateContactCustomFieldsRequest = UpdateContactCustomFieldsRequest string "CustomField list"

datatype DeleteContactRequest = DeleteContactRequest string string string

datatype 'c UpdateContactResponse = UpdateContactResponse 'c

datatype 'c GetContactResponse = GetContactResponse 'c

datatype 'c GetContactsResponse = GetContactsResponse "'c list option"

datatype 'c UpdateContactCustomFieldsResponse = UpdateContactCustomFieldsResponse 'c

text \<open>
  \<^verbatim>\<open>createContactRequest{Email, Name, DayOfCycle, Campaign, CustomFieldValues, IPAddress}\<close> and
  \<^verbatim>\<open>updateCustomFieldRequest{customFields}\<close> of \<^verbatim>\<open>client.go\<close>.
\<close>

datatype createContactRequest =
  createContactRequest string "string option" "32 word option" Campaign "CustomField list" "string option"

datatype updateCustomFieldRequest = updateCustomFieldRequest "CustomField list"

text \<open>The values the clients pass as \<^verbatim>\<open>interface{}\<close> to be marshalled.\<close>

datatype 'c any =
    Any_bytes bytes
  | Any_createContactRequest createContactRequest
  | Any_updateCustomFieldRequest updateCustomFieldRequest
  | Any_Contact 'c
  | Any_CreateContactRequest CreateContactRequest
  | Any_UpdateContactCustomFieldsRequest UpdateContactCustomFieldsRequest

section \<open>The library functions taken as parameters\<close>

text \<open>
  The clients call these functions of the standard library and use only whether they
  fail and what they return:
  \<^item> \<open>url_Parse\<close>: \<^verbatim>\<open>url.Parse\<close>;
  \<^item> \<open>NewRequest_check\<close>: the error of \<^verbatim>\<open>http.NewRequest\<close> for a method and a URL, if any;
  \<^item> \<open>DefaultTransport\<close>: what \<^verbatim>\<open>http.DefaultTransport\<close>, the network, answers;
  \<^item> \<open>json_Marshal\<close>: \<^verbatim>\<open>json.Marshal\<close>;
  \<^item> \<open>zero_Contact\<close>, \<open>store_Contact\<close>: the zero \<^verbatim>\<open>Contact{}\<close> and the decoding of a JSON value
    into a \<^verbatim>\<open>Contact\<close>, with the flag and result of the decoders above.
\<close>

record 'c lib =
  url_Parse :: "string \<Rightarrow> error + URL"
  NewRequest_check :: "string \<Rightarrow> URL \<Rightarrow> error option"
  DefaultTransport :: RoundTripper
  json_Marshal :: "'c any \<Rightarrow> error + bytes"
  zero_Contact :: 'c
  store_Contact :: "json \<Rightarrow> 'c \<Rightarrow> bool \<times> 'c"

text \<open>
  \<^verbatim>\<open>http.NewRequest(method, u.String(), body)\<close>: the request it returns has the method, the
  body, no header and no bound context. It parses the text of \<open>u\<close> again; the URL of the
  request is taken to be \<open>u\<close> itself.
\<close>

definition http_NewRequest :: "'c lib \<Rightarrow> string \<Rightarrow> URL \<Rightarrow> bytes option \<Rightarrow> error + Request" where
  "http_NewRequest L method u body =
     (case NewRequest_check L method u of
        Some err \<Rightarrow> Inl err
      | None \<Rightarrow> Inr \<lparr>Method = method, URL = u, Header = Map.empty, Body = body, Ctx = None\<rparr>)"

text \<open>\<^verbatim>\<open>strconv.Itoa\<close> and \<^verbatim>\<open>strings.Join\<close> (\<open>join\<close> above).\<close>

fun digits :: "nat \<Rightarrow> string" where
  "digits n = (if n < 10 then [char_of (48 + n)] else digits (n div 10) @ [char_of (48 + n mod 10)])"

definition Itoa :: "int \<Rightarrow> string" where
  "Itoa i = (if i < 0 then CHR ''-'' # digits (nat (- i)) else digits (nat i))"

definition XAuthTokenHeader :: string where
  "XAuthTokenHeader = ''X-Auth-Token''"

definition XDomainHeader :: string where
  "XDomainHeader = ''X-Domain''"

section \<open>The client over \<^verbatim>\<open>*http.Client\<close>\<close>

text \<open>
  \<^verbatim>\<open>getResponseClient\<close> and \<^verbatim>\<open>NewClient\<close> of the second file in \<^verbatim>\<open>client_test.go\<close>
  (lines 512 to 531). A nil \<^verbatim>\<open>client\<close> argument is \<open>None\<close>.
\<close>

record getResponseClient_http =
  c_http :: http_Client
  apiKey_http :: string
  domain_http :: string
  apiUrl :: string

definition DefaultClient :: "'c lib \<Rightarrow> http_Client" where
  "DefaultClient L = \<lparr>Timeout = 0, Transport = DefaultTransport L\<rparr>"

definition NewClient_http ::
  "'c lib \<Rightarrow> string \<Rightarrow> string \<Rightarrow> string \<Rightarrow> http_Client option \<Rightarrow> getResponseClient_http" where
  "NewClient_http L apiUrl' apiKey' domain' client =
     (let client = (case client of None \<Rightarrow> DefaultClient L | Some cl \<Rightarrow> cl)
      in \<lparr>c_http = client, apiKey_http = apiKey', domain_http = domain', apiUrl = apiUrl'\<rparr>)"

text \<open>
  \<^verbatim>\<open>roundTrip\<close> (lines 672 to 707). It returns the status, the body and the error, and next
  to them its exchanges with the transport. The header \<open>h\<close> is built as in the source, which
  never attaches it to \<open>req\<close>.
\<close>

definition roundTrip ::
  "'c lib \<Rightarrow> getResponseClient_http \<Rightarrow> ctx option \<Rightarrow> string \<Rightarrow> string \<Rightarrow> Values \<Rightarrow> bytes
     \<Rightarrow> (int \<times> bytes \<times> error option) \<times> exchange list" where
  "roundTrip L g cx method path query body =
     (case url_Parse L (apiUrl g @ path) of
        Inl err \<Rightarrow> ((0, [], Some err), [])
      | Inr u0 \<Rightarrow>
          (let u = u0\<lparr>RawQuery := Values_Encode query\<rparr> in
           case http_NewRequest L method u (Some body) of
             Inl err \<Rightarrow> ((0, [], Some err), [])
           | Inr req0 \<Rightarrow>
               (let h = Map.empty;
                    h = Header_Set h XAuthTokenHeader (''api-key '' @ apiKey_http g);
                    h = Header_Set h ''Content-type'' ''application/json'';
                    h = (if domain_http g \<noteq> [] then Header_Set h XDomainHeader (domain_http g) else h);
                    req = (case cx of None \<Rightarrow> req0 | Some x \<Rightarrow> req0\<lparr>Ctx := Some x\<rparr>)
                in case Do (c_http g) req of
                     Inl err \<Rightarrow> ((0, [], Some err), [(req, Inl err)])
                   | Inr resp \<Rightarrow>
                       (case ReadAll resp of
                          Inl err \<Rightarrow> ((0, [], Some err), [(req, Inr resp)])
                        | Inr ret \<Rightarrow> ((StatusCode resp, ret, None), [(req, Inr resp)])))))"

text \<open>\<^verbatim>\<open>checkGetResponseError\<close> (lines 654 to 670).\<close>

definition checkGetResponseError :: "int \<Rightarrow> bytes \<Rightarrow> error option \<Rightarrow> error option" where
  "checkGetResponseError status ret err =
     (case err of
        Some e \<Rightarrow> Some e
      | None \<Rightarrow>
          if status \<ge> 200 \<and> status < 400 then None
          else (case json_Unmarshal store_GetResponseError ret zero_GetResponseError of
                  (Some jsonErr, grErr) \<Rightarrow> Some (JsonError jsonErr)
                | (None, grErr) \<Rightarrow> Some (RemoteError grErr)))"

text \<open>
  The six operations (lines 533 to 652). Each takes the struct its pointer argument points
  to: the argument is taken to be non-nil. The maps \<^verbatim>\<open>QueryHash\<close> and \<^verbatim>\<open>SortHash\<close> are lists
  of pairs with distinct keys.
\<close>

definition CreateContact_http ::
  "'c lib \<Rightarrow> getResponseClient_http \<Rightarrow> ctx option \<Rightarrow> CreateContactRequest \<Rightarrow> error option \<times> exchange list" where
  "CreateContact_http L g cx request =
     (case json_Marshal L (Any_CreateContactRequest request) of
        Inl err \<Rightarrow> (Some err, [])
      | Inr body \<Rightarrow>
          (case roundTrip L g cx ''POST'' ''/v3/contacts'' [] body of
             ((status, ret, err), sent) \<Rightarrow> (checkGetResponseError status ret err, sent)))"

text \<open>
  The query of the list operation. Both clients build it with the same statements, so it
  is written once; likewise \<open>fields_query\<close> and \<open>delete_query\<close> below.
\<close>

definition contacts_query ::
  "(string \<times> string) list \<Rightarrow> string list \<Rightarrow> (string \<times> string) list \<Rightarrow> 32 word \<Rightarrow> 32 word
     \<Rightarrow> string option \<Rightarrow> Values" where
  "contacts_query queryHash fields' sortHash page perPage additionalFlags =
     (let query = [];
          query = foldl (\<lambda>q (k, v). Values_Set q (''query['' @ k @ '']'') v) query queryHash;
          query = foldl (\<lambda>q (k, v). Values_Set q (''sort['' @ k @ '']'') v) query sortHash;
          query = (if length fields' > 0 then Values_Set query ''fields'' (join fields' '','') else query);
          query = Values_Set query ''page'' (Itoa (sint page));
          query = Values_Set query ''perPage'' (Itoa (sint perPage))
      in case additionalFlags of
           None \<Rightarrow> query
         | Some flags \<Rightarrow> Values_Set query ''additionalFlags'' flags)"

definition GetContacts_http ::
  "'c lib \<Rightarrow> getResponseClient_http \<Rightarrow> ctx option \<Rightarrow> GetContactsRequest
     \<Rightarrow> ('c GetContactsResponse option \<times> error option) \<times> exchange list" where
  "GetContacts_http L g cx req =
     (case req of
        GetContactsRequest QueryHash Fields SortHash Page PerPage AdditionalFlags \<Rightarrow>
          (let query = contacts_query QueryHash Fields SortHash Page PerPage AdditionalFlags in
           case roundTrip L g cx ''GET'' ''/v3/contacts'' query [] of
             ((status, ret, err), sent) \<Rightarrow>
               (case checkGetResponseError status ret err of
                  Some e \<Rightarrow> ((None, Some e), sent)
                | None \<Rightarrow>
                    (case json_Unmarshal (store_slice (store_Contact L) (zero_Contact L)) ret None of
                       (Some jErr, contacts) \<Rightarrow> ((None, Some ErrCouldNotUnmarshal), sent)
                     | (None, contacts) \<Rightarrow> ((Some (GetContactsResponse contacts), None), sent)))))"

definition fields_query :: "string list \<Rightarrow> Values" where
  "fields_query fields' = (if length fields' > 0 then Values_Set [] ''fields'' (join fields' '','') else [])"

definition GetContact_http ::
  "'c lib \<Rightarrow> getResponseClient_http \<Rightarrow> ctx option \<Rightarrow> GetContactRequest
     \<Rightarrow> ('c GetContactResponse option \<times> error option) \<times> exchange list" where
  "GetContact_http L g cx request =
     (case request of
        GetContactRequest ID Fields \<Rightarrow>
          (let query = fields_query Fields in
           case roundTrip L g cx ''GET'' (''/v3/contacts/'' @ ID) query [] of
             ((status, ret, err), sent) \<Rightarrow>
               (case checkGetResponseError status ret err of
                  Some e \<Rightarrow> ((None, Some e), sent)
                | None \<Rightarrow>
                    (case json_Unmarshal (store_Contact L) ret (zero_Contact L) of
                       (Some jErr, c) \<Rightarrow> ((None, Some ErrCouldNotUnmarshal), sent)
                     | (None, c) \<Rightarrow> ((Some (GetContactResponse c), None), sent)))))"

definition UpdateContact_http ::
  "'c lib \<Rightarrow> getResponseClient_http \<Rightarrow> ctx option \<Rightarrow> 'c UpdateContactRequest
     \<Rightarrow> ('c UpdateContactResponse option \<times> error option) \<times> exchange list" where
  "UpdateContact_http L g cx req =
     (case req of
        UpdateContactRequest ID NewData \<Rightarrow>
          (case json_Marshal L (Any_Contact NewData) of
             Inl err \<Rightarrow> ((None, Some err), [])
           | Inr body \<Rightarrow>
               (case roundTrip L g cx ''POST'' (''/v3/contacts/'' @ ID) [] body of
                  ((status, ret, err), sent) \<Rightarrow>
                    (case checkGetResponseError status ret err of
                       Some e \<Rightarrow> ((None, Some e), sent)
                     | None \<Rightarrow>
                         (case json_Unmarshal (store_Contact L) ret (zero_Contact L) of
                            (Some jErr, c) \<Rightarrow>
                              ((Some (UpdateContactResponse c), Some ErrCouldNotUnmarshal), sent)
                          | (None, c) \<Rightarrow> ((Some (UpdateContactResponse c), None), sent))))))"

definition UpdateContactCustomFields_http ::
  "'c lib \<Rightarrow> getResponseClient_http \<Rightarrow> ctx option \<Rightarrow> UpdateContactCustomFieldsRequest
     \<Rightarrow> ('c UpdateContactCustomFieldsResponse option \<times> error option) \<times> exchange list" where
  "UpdateContactCustomFields_http L g cx request =
     (case request of
        UpdateContactCustomFieldsRequest ID CustomFields \<Rightarrow>
          (case json_Marshal L (Any_UpdateContactCustomFieldsRequest request) of
             Inl err \<Rightarrow> ((None, Some err), [])
           | Inr body \<Rightarrow>
               (case roundTrip L g cx ''POST'' (''/v3/contacts/'' @ ID @ ''/custom-fields'') [] body of
                  ((status, ret, err), sent) \<Rightarrow>
                    (case checkGetResponseError status ret err of
                       Some e \<Rightarrow> ((None, Some e), sent)
                     | None \<Rightarrow>
                         (case json_Unmarshal (store_Contact L) ret (zero_Contact L) of
                            (Some jErr, c) \<Rightarrow> ((None, Some ErrCouldNotUnmarshal), sent)
                          | (None, c) \<Rightarrow>
                              ((Some (UpdateContactCustomFieldsResponse c), None), sent))))))"

definition delete_query :: "string \<Rightarrow> string \<Rightarrow> Values" where
  "delete_query messageID ipAddress =
     (let query = [];
          query = Values_Set query ''messageId'' messageID
      in Values_Set query ''ipAddress'' ipAddress)"

definition DeleteContact_http ::
  "'c lib \<Rightarrow> getResponseClient_http \<Rightarrow> ctx option \<Rightarrow> DeleteContactRequest \<Rightarrow> error option \<times> exchange list" where
  "DeleteContact_http L g cx request =
     (case request of
        DeleteContactRequest ID MessageID IpAddress \<Rightarrow>
          (let query = delete_query MessageID IpAddress in
           case roundTrip L g cx ''DELETE'' (''/v3/contacts/'' @ ID) query [] of
             ((status, ret, err), sent) \<Rightarrow> (checkGetResponseError status ret err, sent)))"

section \<open>The client over \<^verbatim>\<open>BaseClient\<close>\<close>

subsection \<open>\<^verbatim>\<open>http.go\<close>: the base client\<close>

definition ErrorCantFind :: string where
  "ErrorCantFind = ''CANT_FIND_SERVICE''"

definition ErrorRequestCreation :: string where
  "ErrorRequestCreation = ''CANT_CREATE_REQUEST''"

definition ErrorRequestError :: string where
  "ErrorRequestError = ''ERROR_MAKING_REQUEST''"

definition ErrorDecodingResponse :: string where
  "ErrorDecodingResponse = ''ERROR_DECODING_RESPONSE''"

definition ErrorMarshallingObject :: string where
  "ErrorMarshallingObject = ''ERROR_MARSHALLING_OBJECT''"

text \<open>
  The struct \<^verbatim>\<open>client\<close>. A \<^verbatim>\<open>ServiceFinder\<close> returns a URL and an error, nil (\<open>None\<close>) on
  success. The two hooks return a context; a nil hook is \<open>None\<close>.
\<close>

record client =
  finder :: "string \<Rightarrow> bool \<Rightarrow> URL \<times> error option"
  useTLS :: bool
  serviceName :: string
  httpClient :: http_Client
  beforeFunc :: "(ctx option \<Rightarrow> Request \<Rightarrow> ctx option) option"
  afterFunc :: "(ctx option \<Rightarrow> Request \<Rightarrow> Response option \<Rightarrow> ctx option) option"

definition NewBaseClient ::
  "'c lib \<Rightarrow> (string \<Rightarrow> bool \<Rightarrow> URL \<times> error option) \<Rightarrow> string \<Rightarrow> bool \<Rightarrow> int \<Rightarrow> RoundTripper option
     \<Rightarrow> (ctx option \<Rightarrow> Request \<Rightarrow> ctx option) option
     \<Rightarrow> (ctx option \<Rightarrow> Request \<Rightarrow> Response option \<Rightarrow> ctx option) option \<Rightarrow> client" where
  "NewBaseClient L finder' serviceName' useTLS' timeout rt beforeFunc' afterFunc' =
     (let rt = (case rt of None \<Rightarrow> DefaultTransport L | Some r \<Rightarrow> r);
          c = \<lparr>Timeout = timeout, Transport = rt\<rparr>
      in \<lparr>finder = finder', useTLS = useTLS', serviceName = serviceName', httpClient = c,
          beforeFunc = beforeFunc', afterFunc = afterFunc'\<rparr>)"

text \<open>
  \<^verbatim>\<open>MakeRequest\<close> (lines 63 to 106), with its exchanges with the transport next to its
  result. When \<^verbatim>\<open>Do\<close> fails the hook \<^verbatim>\<open>afterFunc\<close> gets a nil response.
\<close>

definition MakeRequest ::
  "'c lib \<Rightarrow> client \<Rightarrow> ctx option \<Rightarrow> string \<Rightarrow> string \<Rightarrow> Values \<Rightarrow> Header \<Rightarrow> bytes option
     \<Rightarrow> (int \<times> bytes \<times> error option) \<times> exchange list" where
  "MakeRequest L c cx method slug query headers body =
     (case finder c (serviceName c) (useTLS c) of
        (u, Some err) \<Rightarrow> ((0, [], Some (DataError err ErrorCantFind ''Error finding service'')), [])
      | (u, None) \<Rightarrow>
          (let u = u\<lparr>Path := slug\<rparr>;
               u = u\<lparr>RawQuery := Values_Encode query\<rparr>
           in case http_NewRequest L method u body of
                Inl err \<Rightarrow>
                  ((0, [], Some (DataError err ErrorRequestCreation ''Error creating request object'')), [])
              | Inr req \<Rightarrow>
                  (let req = req\<lparr>Header := headers\<rparr>;
                       req = (case cx of None \<Rightarrow> req | Some x \<Rightarrow> req\<lparr>Ctx := Some x\<rparr>);
                       cx = (case beforeFunc c of None \<Rightarrow> cx | Some f \<Rightarrow> f cx req);
                       result = Do (httpClient c) req;
                       cx = (case afterFunc c of
                               None \<Rightarrow> cx
                             | Some f \<Rightarrow> f cx req (case result of Inl e \<Rightarrow> None | Inr resp \<Rightarrow> Some resp))
                   in case result of
                        Inl err \<Rightarrow>
                          ((0, [], Some (DataError err ErrorRequestError ''Could not make the request'')),
                           [(req, result)])
                      | Inr resp \<Rightarrow>
                          (case ReadAll resp of
                             Inl err \<Rightarrow>
                               ((0, [], Some (DataError err ErrorDecodingResponse
                                   ''Could not read response body'')), [(req, result)])
                           | Inr ret \<Rightarrow> ((StatusCode resp, ret, None), [(req, result)])))))"

text \<open>\<^verbatim>\<open>ObjectToJSONReader\<close> (lines 109 to 118): the bytes the reader will yield.\<close>

definition ObjectToJSONReader :: "'c lib \<Rightarrow> 'c any \<Rightarrow> error + bytes" where
  "ObjectToJSONReader L v =
     (case v of
        Any_bytes by \<Rightarrow> Inr by
      | _ \<Rightarrow>
          (case json_Marshal L v of
             Inl err \<Rightarrow> Inl (DataError err ErrorMarshallingObject ''Error marshalling object to json'')
           | Inr by \<Rightarrow> Inr by))"

subsection \<open>\<^verbatim>\<open>client.go\<close>\<close>

text \<open>
  \<^verbatim>\<open>getResponseClient\<close> holds a \<^verbatim>\<open>BaseClient\<close>. \<^verbatim>\<open>NewClient\<close>, the only way to build one outside
  the package, stores what \<^verbatim>\<open>NewBaseClient\<close> returns, so the field is a \<^typ>\<open>client\<close>.
  \<^verbatim>\<open>NewClient\<close> calls \<^verbatim>\<open>NewBaseClient\<close> with five arguments, without the two hooks of the
  \<^verbatim>\<open>http.go\<close> at hand: they are nil.
\<close>

record getResponseClient_base =
  c_base :: client
  apiKey_base :: string
  domain_base :: string
  url_base :: string

definition buildSvcFinder :: "'c lib \<Rightarrow> string \<Rightarrow> string \<Rightarrow> bool \<Rightarrow> URL \<times> error option" where
  "buildSvcFinder L link = (\<lambda>serviceName' tls.
     case url_Parse L link of
       Inl err \<Rightarrow> (zero_URL, Some err)
     | Inr ret \<Rightarrow> (ret, None))"

definition buildDefaultHeaders :: "getResponseClient_base \<Rightarrow> Header" where
  "buildDefaultHeaders g =
     (let h = Map.empty;
          h = Header_Set h XAuthTokenHeader (''api-key '' @ apiKey_base g);
          h = Header_Set h ''Content-type'' ''application/json''
      in if domain_base g \<noteq> [] then Header_Set h XDomainHeader (domain_base g) else h)"

definition NewClient_base :: "'c lib \<Rightarrow> string \<Rightarrow> string \<Rightarrow> int \<Rightarrow> getResponseClient_base" where
  "NewClient_base L apiKey' apiUrl' timeout =
     \<lparr>c_base = NewBaseClient L (buildSvcFinder L apiUrl') ''getresponse'' True timeout None None None,
      apiKey_base = apiKey', domain_base = [], url_base = []\<rparr>"

text \<open>
  Modelled from the spec: the declaration of \<^verbatim>\<open>ErrorResponse\<close>, which \<^verbatim>\<open>parseError\<close> decodes
  into, is not among the sources. The spec gives the error response the JSON shape
  \<^verbatim>\<open>{httpStatus, code, codeDescription, message, moreInfo, context[], uuid}\<close>; that is the
  shape of \<^verbatim>\<open>GetResponseError\<close>, which stands for it.
\<close>

type_synonym ErrorResponse = GetResponseError

definition zero_ErrorResponse :: ErrorResponse where
  "zero_ErrorResponse = zero_GetResponseError"

definition store_ErrorResponse :: "json \<Rightarrow> ErrorResponse \<Rightarrow> bool \<times> ErrorResponse" where
  "store_ErrorResponse = store_GetResponseError"

text \<open>\<^verbatim>\<open>parseError\<close> (lines 274 to 281).\<close>

definition parseError :: "bytes \<Rightarrow> error option" where
  "parseError resp =
     (case json_Unmarshal store_ErrorResponse resp zero_ErrorResponse of
        (Some err, errRet) \<Rightarrow> Some (errors_New ''could not unmarshal error response'')
      | (None, errRet) \<Rightarrow> Some (errors_New (Message errRet)))"

text \<open>The six operations (lines 99 to 271).\<close>

definition CreateContact_base ::
  "'c lib \<Rightarrow> getResponseClient_base \<Rightarrow> ctx option \<Rightarrow> string \<Rightarrow> string option \<Rightarrow> 32 word option \<Rightarrow> string
     \<Rightarrow> CustomField list \<Rightarrow> string option \<Rightarrow> error option \<times> exchange list" where
  "CreateContact_base L g cx email name dayOfCycle campaignID customFields ipAddress =
     (let slug = ''/v3/contacts'';
          bodyObj = createContactRequest email name dayOfCycle (Campaign campaignID) customFields ipAddress
      in case ObjectToJSONReader L (Any_createContactRequest bodyObj) of
           Inl err \<Rightarrow> (Some err, [])
         | Inr body \<Rightarrow>
             (case MakeRequest L (c_base g) cx ''POST'' slug [] (buildDefaultHeaders g) (Some body) of
                ((status, ret, Some err), sent) \<Rightarrow> (Some err, sent)
              | ((status, ret, None), sent) \<Rightarrow>
                  if status < 200 \<or> status \<ge> 400 then (parseError ret, sent) else (None, sent)))"

definition GetContacts_base ::
  "'c lib \<Rightarrow> getResponseClient_base \<Rightarrow> ctx option \<Rightarrow> (string \<times> string) list \<Rightarrow> string list
     \<Rightarrow> (string \<times> string) list \<Rightarrow> 32 word \<Rightarrow> 32 word \<Rightarrow> string option
     \<Rightarrow> ('c list option \<times> error option) \<times> exchange list" where
  "GetContacts_base L g cx queryHash fields' sortHash page perPage additionalFlags =
     (let slug = ''/v3/contacts'';
          query = contacts_query queryHash fields' sortHash page perPage additionalFlags;
          result = Some []
      in case MakeRequest L (c_base g) cx ''GET'' slug query (buildDefaultHeaders g) None of
           ((status, ret, Some err), sent) \<Rightarrow> ((result, Some err), sent)
         | ((status, ret, None), sent) \<Rightarrow>
             if status < 200 \<or> status \<ge> 400 then ((result, parseError ret), sent)
             else (case json_Unmarshal (store_slice (store_Contact L) (zero_Contact L)) ret result of
                     (Some jErr, result) \<Rightarrow> ((result, Some ErrCouldNotUnmarshal), sent)
                   | (None, result) \<Rightarrow> ((result, None), sent)))"

definition GetContact_base ::
  "'c lib \<Rightarrow> getResponseClient_base \<Rightarrow> ctx option \<Rightarrow> string \<Rightarrow> string list
     \<Rightarrow> ('c \<times> error option) \<times> exchange list" where
  "GetContact_base L g cx ID fields' =
     (let slug = ''/v3/contacts/'' @ ID;
          query = fields_query fields';
          result = zero_Contact L
      in case MakeRequest L (c_base g) cx ''GET'' slug query (buildDefaultHeaders g) None of
           ((status, ret, Some err), sent) \<Rightarrow> ((result, Some err), sent)
         | ((status, ret, None), sent) \<Rightarrow>
             if status < 200 \<or> status \<ge> 400 then ((result, parseError ret), sent)
             else (case json_Unmarshal (store_Contact L) ret result of
                     (Some jErr, result) \<Rightarrow> ((result, Some ErrCouldNotUnmarshal), sent)
                   | (None, result) \<Rightarrow> ((result, None), sent)))"

definition UpdateContact_base ::
  "'c lib \<Rightarrow> getResponseClient_base \<Rightarrow> ctx option \<Rightarrow> string \<Rightarrow> 'c \<Rightarrow> ('c \<times> error option) \<times> exchange list" where
  "UpdateContact_base L g cx ID newData =
     (let result = zero_Contact L;
          slug = ''/v3/contacts/'' @ ID
      in case ObjectToJSONReader L (Any_Contact newData) of
           Inl err \<Rightarrow> ((result, Some err), [])
         | Inr body \<Rightarrow>
             (case MakeRequest L (c_base g) cx ''POST'' slug [] (buildDefaultHeaders g) (Some body) of
                ((status, ret, Some err), sent) \<Rightarrow> ((result, Some err), sent)
              | ((status, ret, None), sent) \<Rightarrow>
                  if status < 200 \<or> status \<ge> 400 then ((result, parseError ret), sent)
                  else (case json_Unmarshal (store_Contact L) ret result of
                          (Some jErr, result) \<Rightarrow> ((result, Some ErrCouldNotUnmarshal), sent)
                        | (None, result) \<Rightarrow> ((result, None), sent))))"

definition UpdateContactCustomFields_base ::
  "'c lib \<Rightarrow> getResponseClient_base \<Rightarrow> ctx option \<Rightarrow> string \<Rightarrow> CustomField list
     \<Rightarrow> ('c \<times> error option) \<times> exchange list" where
  "UpdateContactCustomFields_base L g cx ID customFields =
     (let result = zero_Contact L;
          slug = ''/v3/contacts/'' @ ID @ ''/custom-fields'';
          bodyObj = updateCustomFieldRequest customFields
      in case ObjectToJSONReader L (Any_updateCustomFieldRequest bodyObj) of
           Inl err \<Rightarrow> ((result, Some err), [])
         | Inr body \<Rightarrow>
             (case MakeRequest L (c_base g) cx ''POST'' slug [] (buildDefaultHeaders g) (Some body) of
                ((status, ret, Some err), sent) \<Rightarrow> ((result, Some err), sent)
              | ((status, ret, None), sent) \<Rightarrow>
                  if status < 200 \<or> status \<ge> 400 then ((result, parseError ret), sent)
                  else (case json_Unmarshal (store_Contact L) ret result of
                          (Some jErr, result) \<Rightarrow> ((result, Some ErrCouldNotUnmarshal), sent)
                        | (None, result) \<Rightarrow> ((result, None), sent))))"

definition DeleteContact_base ::
  "'c lib \<Rightarrow> getResponseClient_base \<Rightarrow> ctx option \<Rightarrow> string \<Rightarrow> string \<Rightarrow> string
     \<Rightarrow> error option \<times> exchange list" where
  "DeleteContact_base L g cx ID messageID ipAddress =
     (let slug = ''/v3/contacts/'' @ ID;
          query = delete_query messageID ipAddress
      in case MakeRequest L (c_base g) cx ''DELETE'' slug query (buildDefaultHeaders g) None of
           ((status, ret, Some err), sent) \<Rightarrow> (Some err, sent)
         | ((status, ret, None), sent) \<Rightarrow>
             if status < 200 \<or> status \<ge> 400 then (parseError ret, sent) else (None, sent))"

section \<open>Notions used to state the properties\<close>

text \<open>
  The run of an operation was answered with status \<open>s\<close> and body \<open>ret\<close>: the operation had
  one exchange with the transport, in which the transport returned a response with that
  status whose body could be read to the end and was \<open>ret\<close>.
\<close>

fun answered :: "exchange list \<Rightarrow> int \<Rightarrow> bytes \<Rightarrow> bool" where
  "answered [(req, Inr resp)] s ret = (StatusCode resp = s \<and> ReadAll resp = Inr ret)"
| "answered exchanges s ret = False"

text \<open>
  The errors that come out of decoding the body as an error response: the remote error
  or the decoder's error (\<^verbatim>\<open>checkGetResponseError\<close>), a fresh \<^verbatim>\<open>errors.New\<close> value
  (\<^verbatim>\<open>parseError\<close>). Once the transport has answered, no other path returns one of them.
\<close>

fun from_error_body :: "error option \<Rightarrow> bool" where
  "from_error_body (Some (RemoteError g)) = True"
| "from_error_body (Some (JsonError e)) = True"
| "from_error_body (Some (errors_New s)) = True"
| "from_error_body e = False"

text \<open>Some member of an object selects the field with the given JSON name.\<close>

definition has_member :: "string \<Rightarrow> (string \<times> json) list \<Rightarrow> bool" where
  "has_member name ms = list_ex (\<lambda>kv. equalFold name (fst kv)) ms"

text \<open>The error of an operation that decodes a payload, from the decoder's error.\<close>

definition payload_error :: "json_error option \<Rightarrow> error option" where
  "payload_error e = (case e of Some jErr \<Rightarrow> Some ErrCouldNotUnmarshal | None \<Rightarrow> None)"

subsection \<open>A test server\<close>

text \<open>
  The tests of the repository run the client against a local server whose handler writes
  a fixed status and body. \<open>test_lib status body\<close> is the library in that setting: the
  network answers every request with \<open>status\<close> and \<open>body\<close>, a URL \<^verbatim>\<open>http://host/path\<close> parses
  into its parts, building a request and marshalling succeed. The \<^verbatim>\<open>Contact\<close> of the
  setting has the two fields the tests read, \<^verbatim>\<open>Name\<close> and \<^verbatim>\<open>Email\<close> of type \<^verbatim>\<open>*string\<close>.
\<close>

type_synonym test_Contact = "string option \<times> string option"

definition store_string_ptr :: "json \<Rightarrow> string option \<Rightarrow> bool \<times> string option" where
  "store_string_ptr j old =
     (case j of
        JString s \<Rightarrow> (False, Some s)
      | JNull \<Rightarrow> (False, None)
      | _ \<Rightarrow> (True, Some (case old of None \<Rightarrow> [] | Some s \<Rightarrow> s)))"

definition store_test_member :: "bool \<times> test_Contact \<Rightarrow> string \<times> json \<Rightarrow> bool \<times> test_Contact" where
  "store_test_member st kv =
     (case (st, kv) of
        ((bad, (name, email)), (k, v)) \<Rightarrow>
          if equalFold ''name'' k then
            (case store_string_ptr v name of (b, x) \<Rightarrow> (bad \<or> b, (x, email)))
          else if equalFold ''email'' k then
            (case store_string_ptr v email of (b, x) \<Rightarrow> (bad \<or> b, (name, x)))
          else (bad, (name, email)))"

definition store_test_Contact :: "json \<Rightarrow> test_Contact \<Rightarrow> bool \<times> test_Contact" where
  "store_test_Contact j c =
     (case j of
        JObject ms \<Rightarrow> foldl store_test_member (False, c) ms
      | JNull \<Rightarrow> (False, c)
      | _ \<Rightarrow> (True, c))"

definition test_url_Parse :: "string \<Rightarrow> error + URL" where
  "test_url_Parse s =
     (if take 7 s = ''http://'' then
        Inr \<lparr>Scheme = ''http'', Host = takeWhile (\<lambda>c. c \<noteq> CHR ''/'') (drop 7 s),
             Path = dropWhile (\<lambda>c. c \<noteq> CHR ''/'') (drop 7 s), RawQuery = []\<rparr>
      else Inl (LibraryError ''missing protocol scheme''))"

definition test_lib :: "int \<Rightarrow> bytes \<Rightarrow> test_Contact lib" where
  "test_lib status body =
     \<lparr>url_Parse = test_url_Parse,
      NewRequest_check = (\<lambda>m u. None),
      DefaultTransport = (\<lambda>req. Inr \<lparr>StatusCode = status, ReadAll = Inr body\<rparr>),
      json_Marshal = (\<lambda>v. Inr ''{}''),
      zero_Contact = (None, None),
      store_Contact = store_test_Contact\<rparr>"

text \<open>Bodies that the tests write and that the properties below name.\<close>

definition body_conflict :: bytes where
  \<open>body_conflict = ''{"code":1008,"message":"conflict"}''\<close>

definition body_not_json :: bytes where
  \<open>body_not_json = ''{"not json"''\<close>

definition body_message_number :: bytes where
  \<open>body_message_number = ''{"message":1008}''\<close>

definition body_code_only :: bytes where
  \<open>body_code_only = ''{"code":1008}''\<close>

definition body_empty_object :: bytes where
  \<open>body_empty_object = ''{}''\<close>

definition body_null :: bytes where
  \<open>body_null = ''null''\<close>

definition body_array_of_number :: bytes where
  \<open>body_array_of_number = ''[1]''\<close>

text \<open>The two clients against the test server, built by their constructors.\<close>

definition test_client_http :: "int \<Rightarrow> bytes \<Rightarrow> getResponseClient_http" where
  "test_client_http status body =
     NewClient_http (test_lib status body) ''http://127.0.0.1:8080'' ''secret'' ''tenant'' None"

definition test_client_base :: "int \<Rightarrow> bytes \<Rightarrow> getResponseClient_base" where
  "test_client_base status body = NewClient_base (test_lib status body) ''secret'' ''http://127.0.0.1:8080'' 5"

section \<open>What the operations return once the transport has answered\<close>

lemma roundTrip_answered:
  "answered (snd (roundTrip L g cx m p q b)) s ret \<Longrightarrow>
   \<exists>exchanges. roundTrip L g cx m p q b = ((s, ret, None), exchanges)"
  by (auto simp: roundTrip_def Let_def split: sum.splits)

lemma MakeRequest_answered:
  "answered (snd (MakeRequest L c cx m slug q h b)) s ret \<Longrightarrow>
   \<exists>exchanges. MakeRequest L c cx m slug q h b = ((s, ret, None), exchanges)"
  by (auto simp: MakeRequest_def Let_def split: sum.splits prod.splits option.splits)

text \<open>The exchanges of an operation are those of its call of \<^verbatim>\<open>roundTrip\<close> or \<^verbatim>\<open>MakeRequest\<close>.\<close>

lemma CreateContact_http_exchanges:
  "snd (CreateContact_http L g cx rc) =
     (case json_Marshal L (Any_CreateContactRequest rc) of
        Inl err \<Rightarrow> []
      | Inr body \<Rightarrow> snd (roundTrip L g cx ''POST'' ''/v3/contacts'' [] body))"
  by (simp add: CreateContact_http_def Let_def split: sum.splits prod.splits option.splits)

lemma GetContacts_http_exchanges:
  "snd (GetContacts_http L g cx (GetContactsRequest QueryHash Fields SortHash Page PerPage
    AdditionalFlags)) =
     snd (roundTrip L g cx ''GET'' ''/v3/contacts'' (contacts_query QueryHash Fields SortHash Page
       PerPage AdditionalFlags) [])"
  by (simp add: GetContacts_http_def Let_def split: sum.splits prod.splits option.splits)

lemma GetContact_http_exchanges:
  "snd (GetContact_http L g cx (GetContactRequest ID Fields)) =
     snd (roundTrip L g cx ''GET'' (''/v3/contacts/'' @ ID) (fields_query Fields) [])"
  by (simp add: GetContact_http_def Let_def split: sum.splits prod.splits option.splits)

lemma UpdateContact_http_exchanges:
  "snd (UpdateContact_http L g cx (UpdateContactRequest ID NewData)) =
     (case json_Marshal L (Any_Contact NewData) of
        Inl err \<Rightarrow> []
      | Inr body \<Rightarrow> snd (roundTrip L g cx ''POST'' (''/v3/contacts/'' @ ID) [] body))"
  by (simp add: UpdateContact_http_def Let_def split: sum.splits prod.splits option.splits)

lemma UpdateContactCustomFields_http_exchanges:
  "snd (UpdateContactCustomFields_http L g cx (UpdateContactCustomFieldsRequest ID CustomFields))
    =
     (case json_Marshal L (Any_UpdateContactCustomFieldsRequest (UpdateContactCustomFieldsRequest
       ID CustomFields)) of
        Inl err \<Rightarrow> []
      | Inr body \<Rightarrow> snd (roundTrip L g cx ''POST'' (''/v3/contacts/'' @ ID @ ''/custom-fields'') []
        body))"
  by (simp add: UpdateContactCustomFields_http_def Let_def split: sum.splits prod.splits option.splits)

lemma DeleteContact_http_exchanges:
  "snd (DeleteContact_http L g cx (DeleteContactRequest ID MessageID IpAddress)) =
     snd (roundTrip L g cx ''DELETE'' (''/v3/contacts/'' @ ID) (delete_query MessageID IpAddress)
       [])"
  by (simp add: DeleteContact_http_def Let_def split: sum.splits prod.splits option.splits)

lemma CreateContact_base_exchanges:
  "snd (CreateContact_base L g' cx email name dayOfCycle campaignID customFields ipAddress) =
     (case ObjectToJSONReader L (Any_createContactRequest (createContactRequest email name
       dayOfCycle (Campaign campaignID) customFields ipAddress)) of
        Inl err \<Rightarrow> []
      | Inr body \<Rightarrow> snd (MakeRequest L (c_base g') cx ''POST'' ''/v3/contacts'' []
        (buildDefaultHeaders g') (Some body)))"
  by (simp add: CreateContact_base_def Let_def split: sum.splits prod.splits option.splits)

lemma GetContacts_base_exchanges:
  "snd (GetContacts_base L g' cx queryHash fields' sortHash page perPage flags) =
     snd (MakeRequest L (c_base g') cx ''GET'' ''/v3/contacts'' (contacts_query queryHash fields'
       sortHash page perPage flags) (buildDefaultHeaders g') None)"
  by (simp add: GetContacts_base_def Let_def split: sum.splits prod.splits option.splits)

lemma GetContact_base_exchanges:
  "snd (GetContact_base L g' cx ID fields') =
     snd (MakeRequest L (c_base g') cx ''GET'' (''/v3/contacts/'' @ ID) (fields_query fields')
       (buildDefaultHeaders g') None)"
  by (simp add: GetContact_base_def Let_def split: sum.splits prod.splits option.splits)

lemma UpdateContact_base_exchanges:
  "snd (UpdateContact_base L g' cx ID newData) =
     (case ObjectToJSONReader L (Any_Contact newData) of
        Inl err \<Rightarrow> []
      | Inr body \<Rightarrow> snd (MakeRequest L (c_base g') cx ''POST'' (''/v3/contacts/'' @ ID) []
        (buildDefaultHeaders g') (Some body)))"
  by (simp add: UpdateContact_base_def Let_def split: sum.splits prod.splits option.splits)

lemma UpdateContactCustomFields_base_exchanges:
  "snd (UpdateContactCustomFields_base L g' cx ID customFields) =
     (case ObjectToJSONReader L (Any_updateCustomFieldRequest (updateCustomFieldRequest
       customFields)) of
        Inl err \<Rightarrow> []
      | Inr body \<Rightarrow> snd (MakeRequest L (c_base g') cx ''POST'' (''/v3/contacts/'' @ ID @
        ''/custom-fields'') [] (buildDefaultHeaders g') (Some body)))"
  by (simp add: UpdateContactCustomFields_base_def Let_def split: sum.splits prod.splits option.splits)

lemma DeleteContact_base_exchanges:
  "snd (DeleteContact_base L g' cx ID messageID ipAddress') =
     snd (MakeRequest L (c_base g') cx ''DELETE'' (''/v3/contacts/'' @ ID) (delete_query messageID
       ipAddress') (buildDefaultHeaders g') None)"
  by (simp add: DeleteContact_base_def Let_def split: sum.splits prod.splits option.splits)

text \<open>The error an answered operation returns.\<close>

lemma CreateContact_http_error:
  assumes "answered (snd (CreateContact_http L g cx rc)) s ret"
  shows "fst (CreateContact_http L g cx rc) =
    checkGetResponseError s ret None"
proof -
  from assms obtain body where
    b: "json_Marshal L (Any_CreateContactRequest rc) = Inr body"
    and a: "answered (snd (roundTrip L g cx ''POST'' ''/v3/contacts'' [] body)) s ret"
    by (auto simp: CreateContact_http_exchanges split: sum.splits)
  from roundTrip_answered [OF a] obtain exchanges where
    "roundTrip L g cx ''POST'' ''/v3/contacts'' [] body = ((s, ret, None), exchanges)" ..
  with b show ?thesis
    by (simp add: CreateContact_http_def Let_def payload_error_def split: prod.splits
      option.splits)
qed

lemma GetContacts_http_error:
  assumes "answered (snd (GetContacts_http L g cx rl)) s ret"
  shows "snd (fst (GetContacts_http L g cx rl)) =
    (if 200 \<le> s \<and> s < 400 then payload_error (fst (json_Unmarshal (store_slice (store_Contact L)
      (zero_Contact L)) ret None)) else checkGetResponseError s ret None)"
proof (cases rl)
  case (GetContactsRequest QueryHash Fields SortHash Page PerPage AdditionalFlags)
  with assms have
    a: "answered (snd (roundTrip L g cx ''GET'' ''/v3/contacts'' (contacts_query QueryHash Fields
      SortHash Page PerPage AdditionalFlags) [])) s ret"
    by (simp add: GetContacts_http_exchanges)
  from roundTrip_answered [OF a] obtain exchanges where
    "roundTrip L g cx ''GET'' ''/v3/contacts'' (contacts_query QueryHash Fields SortHash Page
      PerPage AdditionalFlags) [] = ((s, ret, None), exchanges)" ..
  with GetContactsRequest show ?thesis
    by (simp add: GetContacts_http_def Let_def payload_error_def checkGetResponseError_def split:
      prod.splits option.splits)
qed

lemma GetContact_http_error:
  assumes "answered (snd (GetContact_http L g cx rg)) s ret"
  shows "snd (fst (GetContact_http L g cx rg)) =
    (if 200 \<le> s \<and> s < 400 then payload_error (fst (json_Unmarshal (store_Contact L) ret
      (zero_Contact L))) else checkGetResponseError s ret None)"
proof (cases rg)
  case (GetContactRequest ID Fields)
  with assms have
    a: "answered (snd (roundTrip L g cx ''GET'' (''/v3/contacts/'' @ ID) (fields_query Fields)
      [])) s ret"
    by (simp add: GetContact_http_exchanges)
  from roundTrip_answered [OF a] obtain exchanges where
    "roundTrip L g cx ''GET'' (''/v3/contacts/'' @ ID) (fields_query Fields) [] = ((s, ret, None),
      exchanges)" ..
  with GetContactRequest show ?thesis
    by (simp add: GetContact_http_def Let_def payload_error_def checkGetResponseError_def split:
      prod.splits option.splits)
qed

lemma UpdateContact_http_error:
  assumes "answered (snd (UpdateContact_http L g cx ru)) s ret"
  shows "snd (fst (UpdateContact_http L g cx ru)) =
    (if 200 \<le> s \<and> s < 400 then payload_error (fst (json_Unmarshal (store_Contact L) ret
      (zero_Contact L))) else checkGetResponseError s ret None)"
proof (cases ru)
  case (UpdateContactRequest ID NewData)
  with assms obtain body where
    b: "json_Marshal L (Any_Contact NewData) = Inr body"
    and a: "answered (snd (roundTrip L g cx ''POST'' (''/v3/contacts/'' @ ID) [] body)) s ret"
    by (auto simp: UpdateContact_http_exchanges split: sum.splits)
  from roundTrip_answered [OF a] obtain exchanges where
    "roundTrip L g cx ''POST'' (''/v3/contacts/'' @ ID) [] body = ((s, ret, None), exchanges)" ..
  with b UpdateContactRequest show ?thesis
    by (simp add: UpdateContact_http_def Let_def payload_error_def checkGetResponseError_def
      split: prod.splits option.splits)
qed

lemma UpdateContactCustomFields_http_error:
  assumes "answered (snd (UpdateContactCustomFields_http L g cx rf)) s ret"
  shows "snd (fst (UpdateContactCustomFields_http L g cx rf)) =
    (if 200 \<le> s \<and> s < 400 then payload_error (fst (json_Unmarshal (store_Contact L) ret
      (zero_Contact L))) else checkGetResponseError s ret None)"
proof (cases rf)
  case (UpdateContactCustomFieldsRequest ID CustomFields)
  with assms obtain body where
    b: "json_Marshal L (Any_UpdateContactCustomFieldsRequest (UpdateContactCustomFieldsRequest ID
      CustomFields)) = Inr body"
    and a: "answered (snd (roundTrip L g cx ''POST'' (''/v3/contacts/'' @ ID @ ''/custom-fields'')
      [] body)) s ret"
    by (auto simp: UpdateContactCustomFields_http_exchanges split: sum.splits)
  from roundTrip_answered [OF a] obtain exchanges where
    "roundTrip L g cx ''POST'' (''/v3/contacts/'' @ ID @ ''/custom-fields'') [] body = ((s, ret,
      None), exchanges)" ..
  with b UpdateContactCustomFieldsRequest show ?thesis
    by (simp add: UpdateContactCustomFields_http_def Let_def payload_error_def
      checkGetResponseError_def split: prod.splits option.splits)
qed

lemma DeleteContact_http_error:
  assumes "answered (snd (DeleteContact_http L g cx rd)) s ret"
  shows "fst (DeleteContact_http L g cx rd) =
    checkGetResponseError s ret None"
proof (cases rd)
  case (DeleteContactRequest ID MessageID IpAddress)
  with assms have
    a: "answered (snd (roundTrip L g cx ''DELETE'' (''/v3/contacts/'' @ ID) (delete_query
      MessageID IpAddress) [])) s ret"
    by (simp add: DeleteContact_http_exchanges)
  from roundTrip_answered [OF a] obtain exchanges where
    "roundTrip L g cx ''DELETE'' (''/v3/contacts/'' @ ID) (delete_query MessageID IpAddress) [] =
      ((s, ret, None), exchanges)" ..
  with DeleteContactRequest show ?thesis
    by (simp add: DeleteContact_http_def Let_def payload_error_def split: prod.splits
      option.splits)
qed

lemma CreateContact_base_error:
  assumes "answered (snd (CreateContact_base L g' cx email name dayOfCycle campaignID customFields
    ipAddress)) s ret"
  shows "fst (CreateContact_base L g' cx email name dayOfCycle campaignID customFields ipAddress)
    =
    (if s < 200 \<or> 400 \<le> s then parseError ret else None)"
proof -
  from assms obtain body where
    b: "ObjectToJSONReader L (Any_createContactRequest (createContactRequest email name dayOfCycle
      (Campaign campaignID) customFields ipAddress)) = Inr body"
    and a: "answered (snd (MakeRequest L (c_base g') cx ''POST'' ''/v3/contacts'' []
      (buildDefaultHeaders g') (Some body))) s ret"
    by (auto simp: CreateContact_base_exchanges split: sum.splits)
  from MakeRequest_answered [OF a] obtain exchanges where
    "MakeRequest L (c_base g') cx ''POST'' ''/v3/contacts'' [] (buildDefaultHeaders g') (Some
      body) = ((s, ret, None), exchanges)" ..
  with b show ?thesis
    by (simp add: CreateContact_base_def Let_def payload_error_def split: prod.splits
      option.splits)
qed

lemma GetContacts_base_error:
  assumes "answered (snd (GetContacts_base L g' cx queryHash fields' sortHash page perPage flags))
    s ret"
  shows "snd (fst (GetContacts_base L g' cx queryHash fields' sortHash page perPage flags)) =
    (if s < 200 \<or> 400 \<le> s then parseError ret else payload_error (fst (json_Unmarshal (store_slice
      (store_Contact L) (zero_Contact L)) ret (Some []))))"
proof -
  from assms have
    a: "answered (snd (MakeRequest L (c_base g') cx ''GET'' ''/v3/contacts'' (contacts_query
      queryHash fields' sortHash page perPage flags) (buildDefaultHeaders g') None)) s ret"
    by (simp add: GetContacts_base_exchanges)
  from MakeRequest_answered [OF a] obtain exchanges where
    "MakeRequest L (c_base g') cx ''GET'' ''/v3/contacts'' (contacts_query queryHash fields'
      sortHash page perPage flags) (buildDefaultHeaders g') None = ((s, ret, None), exchanges)" ..
  then show ?thesis
    by (simp add: GetContacts_base_def Let_def payload_error_def split: prod.splits option.splits)
qed

lemma GetContact_base_error:
  assumes "answered (snd (GetContact_base L g' cx ID fields')) s ret"
  shows "snd (fst (GetContact_base L g' cx ID fields')) =
    (if s < 200 \<or> 400 \<le> s then parseError ret else payload_error (fst (json_Unmarshal
      (store_Contact L) ret (zero_Contact L))))"
proof -
  from assms have
    a: "answered (snd (MakeRequest L (c_base g') cx ''GET'' (''/v3/contacts/'' @ ID) (fields_query
      fields') (buildDefaultHeaders g') None)) s ret"
    by (simp add: GetContact_base_exchanges)
  from MakeRequest_answered [OF a] obtain exchanges where
    "MakeRequest L (c_base g') cx ''GET'' (''/v3/contacts/'' @ ID) (fields_query fields')
      (buildDefaultHeaders g') None = ((s, ret, None), exchanges)" ..
  then show ?thesis
    by (simp add: GetContact_base_def Let_def payload_error_def split: prod.splits option.splits)
qed

lemma UpdateContact_base_error:
  assumes "answered (snd (UpdateContact_base L g' cx ID newData)) s ret"
  shows "snd (fst (UpdateContact_base L g' cx ID newData)) =
    (if s < 200 \<or> 400 \<le> s then parseError ret else payload_error (fst (json_Unmarshal
      (store_Contact L) ret (zero_Contact L))))"
proof -
  from assms obtain body where
    b: "ObjectToJSONReader L (Any_Contact newData) = Inr body"
    and a: "answered (snd (MakeRequest L (c_base g') cx ''POST'' (''/v3/contacts/'' @ ID) []
      (buildDefaultHeaders g') (Some body))) s ret"
    by (auto simp: UpdateContact_base_exchanges split: sum.splits)
  from MakeRequest_answered [OF a] obtain exchanges where
    "MakeRequest L (c_base g') cx ''POST'' (''/v3/contacts/'' @ ID) [] (buildDefaultHeaders g')
      (Some body) = ((s, ret, None), exchanges)" ..
  with b show ?thesis
    by (simp add: UpdateContact_base_def Let_def payload_error_def split: prod.splits
      option.splits)
qed

lemma UpdateContactCustomFields_base_error:
  assumes "answered (snd (UpdateContactCustomFields_base L g' cx ID customFields)) s ret"
  shows "snd (fst (UpdateContactCustomFields_base L g' cx ID customFields)) =
    (if s < 200 \<or> 400 \<le> s then parseError ret else payload_error (fst (json_Unmarshal
      (store_Contact L) ret (zero_Contact L))))"
proof -
  from assms obtain body where
    b: "ObjectToJSONReader L (Any_updateCustomFieldRequest (updateCustomFieldRequest
      customFields)) = Inr body"
    and a: "answered (snd (MakeRequest L (c_base g') cx ''POST'' (''/v3/contacts/'' @ ID @
      ''/custom-fields'') [] (buildDefaultHeaders g') (Some body))) s ret"
    by (auto simp: UpdateContactCustomFields_base_exchanges split: sum.splits)
  from MakeRequest_answered [OF a] obtain exchanges where
    "MakeRequest L (c_base g') cx ''POST'' (''/v3/contacts/'' @ ID @ ''/custom-fields'') []
      (buildDefaultHeaders g') (Some body) = ((s, ret, None), exchanges)" ..
  with b show ?thesis
    by (simp add: UpdateContactCustomFields_base_def Let_def payload_error_def split: prod.splits
      option.splits)
qed

lemma DeleteContact_base_error:
  assumes "answered (snd (DeleteContact_base L g' cx ID messageID ipAddress')) s ret"
  shows "fst (DeleteContact_base L g' cx ID messageID ipAddress') =
    (if s < 200 \<or> 400 \<le> s then parseError ret else None)"
proof -
  from assms have
    a: "answered (snd (MakeRequest L (c_base g') cx ''DELETE'' (''/v3/contacts/'' @ ID)
      (delete_query messageID ipAddress') (buildDefaultHeaders g') None)) s ret"
    by (simp add: DeleteContact_base_exchanges)
  from MakeRequest_answered [OF a] obtain exchanges where
    "MakeRequest L (c_base g') cx ''DELETE'' (''/v3/contacts/'' @ ID) (delete_query messageID
      ipAddress') (buildDefaultHeaders g') None = ((s, ret, None), exchanges)" ..
  then show ?thesis
    by (simp add: DeleteContact_base_def Let_def payload_error_def split: prod.splits
      option.splits)
qed

lemma GetContacts_base_result:
  assumes "answered (snd (GetContacts_base L g' cx queryHash fields' sortHash page perPage flags)) s ret"
  shows "fst (GetContacts_base L g' cx queryHash fields' sortHash page perPage flags) =
    (if s < 200 \<or> 400 \<le> s then (Some [], parseError ret)
     else (case json_Unmarshal (store_slice (store_Contact L) (zero_Contact L)) ret (Some []) of
             (e, result) \<Rightarrow> (result, payload_error e)))"
proof -
  from assms have
    a: "answered (snd (MakeRequest L (c_base g') cx ''GET'' ''/v3/contacts''
      (contacts_query queryHash fields' sortHash page perPage flags) (buildDefaultHeaders g') None)) s ret"
    by (simp add: GetContacts_base_exchanges)
  from MakeRequest_answered [OF a] obtain exchanges where
    "MakeRequest L (c_base g') cx ''GET'' ''/v3/contacts''
      (contacts_query queryHash fields' sortHash page perPage flags) (buildDefaultHeaders g') None
      = ((s, ret, None), exchanges)" ..
  then show ?thesis
    by (simp add: GetContacts_base_def Let_def payload_error_def split: prod.splits option.splits)
qed

section \<open>Facts about the test server\<close>

lemma test_json_Marshal: "json_Marshal (test_lib status body) v = Inr ''{}''"
  by (simp add: test_lib_def)

lemma test_ObjectToJSONReader:
  "ObjectToJSONReader (test_lib status body) (Any_createContactRequest c) = Inr ''{}''"
  "ObjectToJSONReader (test_lib status body) (Any_Contact n) = Inr ''{}''"
  "ObjectToJSONReader (test_lib status body) (Any_updateCustomFieldRequest u) = Inr ''{}''"
  by (simp_all add: ObjectToJSONReader_def test_lib_def)

lemma test_roundTrip:
  "roundTrip (test_lib status body) (test_client_http status body) None m p q b =
     ((status, body, None),
      [(\<lparr>Method = m,
         URL = \<lparr>Scheme = ''http'', Host = takeWhile (\<lambda>c. c \<noteq> CHR ''/'') (''127.0.0.1:8080'' @ p),
                Path = dropWhile (\<lambda>c. c \<noteq> CHR ''/'') (''127.0.0.1:8080'' @ p),
                RawQuery = Values_Encode q\<rparr>,
         Header = Map.empty, Body = Some b, Ctx = None\<rparr>,
        Inr \<lparr>StatusCode = status, ReadAll = Inr body\<rparr>)])"
  by (simp add: roundTrip_def test_lib_def test_client_http_def NewClient_http_def
      DefaultClient_def test_url_Parse_def http_NewRequest_def Do_def Let_def)

lemma test_MakeRequest:
  "MakeRequest (test_lib status body) (c_base (test_client_base status body)) None m slug q h b =
     ((status, body, None),
      [(\<lparr>Method = m,
         URL = \<lparr>Scheme = ''http'', Host = ''127.0.0.1:8080'', Path = slug, RawQuery = Values_Encode q\<rparr>,
         Header = h, Body = b, Ctx = None\<rparr>,
        Inr \<lparr>StatusCode = status, ReadAll = Inr body\<rparr>)])"
  by (simp add: MakeRequest_def test_lib_def test_client_base_def NewClient_base_def
      NewBaseClient_def buildSvcFinder_def test_url_Parse_def http_NewRequest_def Do_def Let_def)

text \<open>The test server answers every operation of both clients.\<close>

lemma test_CreateContact_http:
  "answered (snd (CreateContact_http (test_lib status body) (test_client_http status body) None
      rc)) status body"
  by (simp add: CreateContact_http_exchanges test_roundTrip test_json_Marshal)

lemma test_GetContacts_http:
  "answered (snd (GetContacts_http (test_lib status body) (test_client_http status body) None rl))
      status body"
  by (cases rl) (simp add: GetContacts_http_exchanges test_roundTrip test_json_Marshal)

lemma test_GetContact_http:
  "answered (snd (GetContact_http (test_lib status body) (test_client_http status body) None rg))
      status body"
  by (cases rg) (simp add: GetContact_http_exchanges test_roundTrip test_json_Marshal)

lemma test_UpdateContact_http:
  "answered (snd (UpdateContact_http (test_lib status body) (test_client_http status body) None
      ru)) status body"
  by (cases ru) (simp add: UpdateContact_http_exchanges test_roundTrip test_json_Marshal)

lemma test_UpdateContactCustomFields_http:
  "answered (snd (UpdateContactCustomFields_http (test_lib status body) (test_client_http status
      body) None rf)) status body"
  by (cases rf) (simp add: UpdateContactCustomFields_http_exchanges test_roundTrip
      test_json_Marshal)

lemma test_DeleteContact_http:
  "answered (snd (DeleteContact_http (test_lib status body) (test_client_http status body) None
      rd)) status body"
  by (cases rd) (simp add: DeleteContact_http_exchanges test_roundTrip test_json_Marshal)

lemma test_CreateContact_base:
  "answered (snd (CreateContact_base (test_lib status body) (test_client_base status body) None
      email name dayOfCycle campaignID customFields ipAddress)) status body"
  by (simp add: CreateContact_base_exchanges test_MakeRequest test_ObjectToJSONReader)

lemma test_GetContacts_base:
  "answered (snd (GetContacts_base (test_lib status body) (test_client_base status body) None
      queryHash fields' sortHash page perPage flags)) status body"
  by (simp add: GetContacts_base_exchanges test_MakeRequest test_ObjectToJSONReader)

lemma test_GetContact_base:
  "answered (snd (GetContact_base (test_lib status body) (test_client_base status body) None ID
      fields')) status body"
  by (simp add: GetContact_base_exchanges test_MakeRequest test_ObjectToJSONReader)

lemma test_UpdateContact_base:
  "answered (snd (UpdateContact_base (test_lib status body) (test_client_base status body) None ID
      newData)) status body"
  by (simp add: UpdateContact_base_exchanges test_MakeRequest test_ObjectToJSONReader)

lemma test_UpdateContactCustomFields_base:
  "answered (snd (UpdateContactCustomFields_base (test_lib status body) (test_client_base status
      body) None ID customFields)) status body"
  by (simp add: UpdateContactCustomFields_base_exchanges test_MakeRequest test_ObjectToJSONReader)

lemma test_DeleteContact_base:
  "answered (snd (DeleteContact_base (test_lib status body) (test_client_base status body) None ID
      messageID ipAddress')) status body"
  by (simp add: DeleteContact_base_exchanges test_MakeRequest test_ObjectToJSONReader)

section \<open>Status classification\<close>

lemma from_error_body_check:
  "from_error_body (checkGetResponseError s ret None) = (s < 200 \<or> 400 \<le> s)"
  by (auto simp: checkGetResponseError_def split: prod.splits option.splits)

lemma check_None_iff: "(checkGetResponseError s ret None = None) = (200 \<le> s \<and> s < 400)"
  by (auto simp: checkGetResponseError_def split: prod.splits option.splits)

lemma from_error_body_parseError: "from_error_body (parseError ret)"
  by (simp add: parseError_def split: prod.splits option.splits)

lemma parseError_not_None: "parseError ret \<noteq> None"
  by (simp add: parseError_def split: prod.splits option.splits)

lemma from_error_body_payload: "\<not> from_error_body (payload_error e)"
  by (simp add: payload_error_def split: option.splits)

lemma failure_status: "(s < 200 \<or> 400 \<le> s) = (\<not> (200 \<le> s \<and> s < (400::int)))"
  by auto

lemmas classify = from_error_body_check check_None_iff from_error_body_parseError parseError_not_None
  from_error_body_payload failure_status

text \<open>
  Claim C1. Once the transport has answered an operation with a response whose body can be
  read, the operation takes the success path exactly when the status lies in \<open>[200, 400)\<close>:
  the operations without a payload (create, delete) return a nil error exactly then, and
  every operation returns an error that comes from decoding the body as an error response
  exactly when the status is below 200 or at least 400. This holds for both clients; in
  particular 399 is a success.
\<close>

theorem success_iff_status_in_range:
  "(answered (snd (CreateContact_http L g cx rc)) s ret \<longrightarrow>
        (fst (CreateContact_http L g cx rc) = None) = (200 \<le> s \<and> s < 400)
        \<and> from_error_body (fst (CreateContact_http L g cx rc)) = (s < 200 \<or> 400 \<le> s))
   \<and> (answered (snd (GetContacts_http L g cx rl)) s ret \<longrightarrow>
        from_error_body (snd (fst (GetContacts_http L g cx rl))) = (s < 200 \<or> 400 \<le> s))
   \<and> (answered (snd (GetContact_http L g cx rg)) s ret \<longrightarrow>
        from_error_body (snd (fst (GetContact_http L g cx rg))) = (s < 200 \<or> 400 \<le> s))
   \<and> (answered (snd (UpdateContact_http L g cx ru)) s ret \<longrightarrow>
        from_error_body (snd (fst (UpdateContact_http L g cx ru))) = (s < 200 \<or> 400 \<le> s))
   \<and> (answered (snd (UpdateContactCustomFields_http L g cx rf)) s ret \<longrightarrow>
        from_error_body (snd (fst (UpdateContactCustomFields_http L g cx rf)))
          = (s < 200 \<or> 400 \<le> s))
   \<and> (answered (snd (DeleteContact_http L g cx rd)) s ret \<longrightarrow>
        (fst (DeleteContact_http L g cx rd) = None) = (200 \<le> s \<and> s < 400)
        \<and> from_error_body (fst (DeleteContact_http L g cx rd)) = (s < 200 \<or> 400 \<le> s))
   \<and> (answered (snd (CreateContact_base L g' cx email name dayOfCycle campaignID customFields
         ipAddress)) s ret \<longrightarrow>
        (fst (CreateContact_base L g' cx email name dayOfCycle campaignID customFields ipAddress)
            = None)
          = (200 \<le> s \<and> s < 400)
        \<and> from_error_body (fst (CreateContact_base L g' cx email name dayOfCycle campaignID
            customFields ipAddress))
          = (s < 200 \<or> 400 \<le> s))
   \<and> (answered (snd (GetContacts_base L g' cx queryHash fields' sortHash page perPage flags)) s
         ret \<longrightarrow>
        from_error_body (snd (fst (GetContacts_base L g' cx queryHash fields' sortHash page
            perPage flags)))
          = (s < 200 \<or> 400 \<le> s))
   \<and> (answered (snd (GetContact_base L g' cx ID fields')) s ret \<longrightarrow>
        from_error_body (snd (fst (GetContact_base L g' cx ID fields'))) = (s < 200 \<or> 400 \<le> s))
   \<and> (answered (snd (UpdateContact_base L g' cx ID newData)) s ret \<longrightarrow>
        from_error_body (snd (fst (UpdateContact_base L g' cx ID newData))) = (s < 200 \<or> 400 \<le> s))
   \<and> (answered (snd (UpdateContactCustomFields_base L g' cx ID customFields)) s ret \<longrightarrow>
        from_error_body (snd (fst (UpdateContactCustomFields_base L g' cx ID customFields)))
          = (s < 200 \<or> 400 \<le> s))
   \<and> (answered (snd (DeleteContact_base L g' cx ID messageID ipAddress')) s ret \<longrightarrow>
        (fst (DeleteContact_base L g' cx ID messageID ipAddress') = None) = (200 \<le> s \<and> s < 400)
        \<and> from_error_body (fst (DeleteContact_base L g' cx ID messageID ipAddress'))
          = (s < 200 \<or> 400 \<le> s))"
proof (intro conjI impI, goal_cases)
  case 1
  show ?case by (simp add: CreateContact_http_error [OF 1] classify)
next
  case 2
  show ?case by (simp add: CreateContact_http_error [OF 2] classify)
next
  case 3
  show ?case by (simp add: GetContacts_http_error [OF 3] classify)
next
  case 4
  show ?case by (simp add: GetContact_http_error [OF 4] classify)
next
  case 5
  show ?case by (simp add: UpdateContact_http_error [OF 5] classify)
next
  case 6
  show ?case by (simp add: UpdateContactCustomFields_http_error [OF 6] classify)
next
  case 7
  show ?case by (simp add: DeleteContact_http_error [OF 7] classify)
next
  case 8
  show ?case by (simp add: DeleteContact_http_error [OF 8] classify)
next
  case 9
  show ?case by (simp add: CreateContact_base_error [OF 9] classify)
next
  case 10
  show ?case by (simp add: CreateContact_base_error [OF 10] classify)
next
  case 11
  show ?case by (simp add: GetContacts_base_error [OF 11] classify)
next
  case 12
  show ?case by (simp add: GetContact_base_error [OF 12] classify)
next
  case 13
  show ?case by (simp add: UpdateContact_base_error [OF 13] classify)
next
  case 14
  show ?case by (simp add: UpdateContactCustomFields_base_error [OF 14] classify)
next
  case 15
  show ?case by (simp add: DeleteContact_base_error [OF 15] classify)
next
  case 16
  show ?case by (simp add: DeleteContact_base_error [OF 16] classify)
qed

theorem success_iff_status_in_range_witness:
  "answered (snd (CreateContact_http (test_lib 399 ''{}'') (test_client_http 399 ''{}'') None
      (CreateContactRequest (Some ''foobar'') ''foo@bar.baz'' (Some 5) (Campaign []) [] None)))
      399 ''{}''
   \<and> fst (CreateContact_http (test_lib 399 ''{}'') (test_client_http 399 ''{}'') None
       (CreateContactRequest (Some ''foobar'') ''foo@bar.baz'' (Some 5) (Campaign []) [] None)) =
       None
   \<and> answered (snd (DeleteContact_base (test_lib 399 ''{}'') (test_client_base 399 ''{}'') None
       ''123'' ''hello world'' ''127.0.0.1'')) 399 ''{}''
   \<and> fst (DeleteContact_base (test_lib 399 ''{}'') (test_client_base 399 ''{}'') None ''123''
       ''hello world'' ''127.0.0.1'') = None
   \<and> answered (snd (GetContact_http (test_lib 399 ''{}'') (test_client_http 399 ''{}'') None
       (GetContactRequest ''foo'' [''name'', ''email'']))) 399 ''{}''
   \<and> \<not> from_error_body (snd (fst (GetContact_http (test_lib 399 ''{}'') (test_client_http 399
       ''{}'') None (GetContactRequest ''foo'' [''name'', ''email'']))))"
  using success_iff_status_in_range [where L = "test_lib 399 ''{}''" and g = "test_client_http 399
      ''{}''" and g' = "test_client_base 399 ''{}''" and cx = None and s = 399 and ret = "''{}''"
      and rc = "CreateContactRequest (Some ''foobar'') ''foo@bar.baz'' (Some 5) (Campaign []) []
      None" and rg = "GetContactRequest ''foo'' [''name'', ''email'']" and ID = "''123''" and
      messageID = "''hello world''" and ipAddress' = "''127.0.0.1''"]
  by (simp add: test_CreateContact_http test_DeleteContact_base test_GetContact_http)

section \<open>Decoding the bodies of the tests\<close>

lemma parse_not_json: "json_parse body_not_json = None"
  unfolding body_not_json_def by code_simp

lemma unmarshal_not_json:
  "json_Unmarshal dec body_not_json v = (Some SyntaxError, v)"
  by (simp add: json_Unmarshal_def parse_not_json)

lemma unmarshal_conflict:
  "json_Unmarshal store_GetResponseError body_conflict zero_GetResponseError =
     (None, zero_GetResponseError\<lparr>ErrorCode := 1008, Message := ''conflict''\<rparr>)"
  unfolding body_conflict_def by code_simp

lemma unmarshal_message_number:
  "json_Unmarshal store_GetResponseError body_message_number zero_GetResponseError =
     (Some UnmarshalTypeError, zero_GetResponseError)"
  unfolding body_message_number_def by code_simp

lemma unmarshal_code_only:
  "json_Unmarshal store_GetResponseError body_code_only zero_GetResponseError =
     (None, zero_GetResponseError\<lparr>ErrorCode := 1008\<rparr>)"
  unfolding body_code_only_def by code_simp

lemma unmarshal_empty_object:
  "json_Unmarshal store_GetResponseError body_empty_object zero_GetResponseError =
     (None, zero_GetResponseError)"
  unfolding body_empty_object_def by code_simp

lemma parse_null: "json_parse body_null = Some JNull"
  unfolding body_null_def by code_simp

lemma parse_array_of_number: "json_parse body_array_of_number = Some (JArray [JNumber ''1''])"
  unfolding body_array_of_number_def by code_simp

section \<open>Error responses\<close>

lemma check_failure:
  "s < 200 \<or> 400 \<le> s \<Longrightarrow>
   checkGetResponseError s ret None =
     (case json_Unmarshal store_GetResponseError ret zero_GetResponseError of
        (Some e, g) \<Rightarrow> Some (JsonError e)
      | (None, g) \<Rightarrow> Some (RemoteError g))"
  by (auto simp: checkGetResponseError_def)

lemma parseError_eq:
  "parseError ret =
     (case json_Unmarshal store_GetResponseError ret zero_GetResponseError of
        (Some e, g) \<Rightarrow> Some (errors_New ''could not unmarshal error response'')
      | (None, g) \<Rightarrow> Some (errors_New (Message g)))"
  by (simp add: parseError_def store_ErrorResponse_def zero_ErrorResponse_def)

text \<open>
  Claim C2, as amended. When the transport has answered with a failure status and the body
  cannot be decoded as an error response, the client over \<^verbatim>\<open>*http.Client\<close> returns the
  decoder's error itself, and the client over \<^verbatim>\<open>BaseClient\<close> returns a fresh error with the
  fixed text \<^verbatim>\<open>could not unmarshal error response\<close>. Neither value holds the status or the
  body, and neither takes a message from the body.
\<close>

theorem undecodable_error_body:
  assumes "s < 200 \<or> 400 \<le> s"
    and "fst (json_Unmarshal store_GetResponseError ret zero_GetResponseError) = Some e"
  shows
    "(answered (snd (CreateContact_http L g cx rc)) s ret \<longrightarrow>
          fst (CreateContact_http L g cx rc) = Some (JsonError e))
     \<and> (answered (snd (GetContacts_http L g cx rl)) s ret \<longrightarrow>
          snd (fst (GetContacts_http L g cx rl)) = Some (JsonError e))
     \<and> (answered (snd (GetContact_http L g cx rg)) s ret \<longrightarrow>
          snd (fst (GetContact_http L g cx rg)) = Some (JsonError e))
     \<and> (answered (snd (UpdateContact_http L g cx ru)) s ret \<longrightarrow>
          snd (fst (UpdateContact_http L g cx ru)) = Some (JsonError e))
     \<and> (answered (snd (UpdateContactCustomFields_http L g cx rf)) s ret \<longrightarrow>
          snd (fst (UpdateContactCustomFields_http L g cx rf)) = Some (JsonError e))
     \<and> (answered (snd (DeleteContact_http L g cx rd)) s ret \<longrightarrow>
          fst (DeleteContact_http L g cx rd) = Some (JsonError e))
     \<and> (answered (snd (CreateContact_base L g' cx email name dayOfCycle campaignID customFields
           ipAddress)) s ret \<longrightarrow>
          fst (CreateContact_base L g' cx email name dayOfCycle campaignID customFields ipAddress)
            = Some (errors_New ''could not unmarshal error response''))
     \<and> (answered (snd (GetContacts_base L g' cx queryHash fields' sortHash page perPage flags)) s
           ret \<longrightarrow>
          snd (fst (GetContacts_base L g' cx queryHash fields' sortHash page perPage flags))
            = Some (errors_New ''could not unmarshal error response''))
     \<and> (answered (snd (GetContact_base L g' cx ID fields')) s ret \<longrightarrow>
          snd (fst (GetContact_base L g' cx ID fields'))
            = Some (errors_New ''could not unmarshal error response''))
     \<and> (answered (snd (UpdateContact_base L g' cx ID newData)) s ret \<longrightarrow>
          snd (fst (UpdateContact_base L g' cx ID newData))
            = Some (errors_New ''could not unmarshal error response''))
     \<and> (answered (snd (UpdateContactCustomFields_base L g' cx ID customFields)) s ret \<longrightarrow>
          snd (fst (UpdateContactCustomFields_base L g' cx ID customFields))
            = Some (errors_New ''could not unmarshal error response''))
     \<and> (answered (snd (DeleteContact_base L g' cx ID messageID ipAddress')) s ret \<longrightarrow>
          fst (DeleteContact_base L g' cx ID messageID ipAddress')
            = Some (errors_New ''could not unmarshal error response''))"
proof -
  have r: "(200 \<le> s \<and> s < 400) = False" "(s < 200 \<or> 400 \<le> s) = True"
    using assms(1) by auto
  have c: "checkGetResponseError s ret None = Some (JsonError e)"
    using assms(2) by (cases "json_Unmarshal store_GetResponseError ret zero_GetResponseError")
      (simp add: check_failure [OF assms(1)])
  have p: "parseError ret = Some (errors_New ''could not unmarshal error response'')"
    using assms(2) by (cases "json_Unmarshal store_GetResponseError ret zero_GetResponseError")
      (simp add: parseError_eq)
  show ?thesis
  proof (intro conjI impI, goal_cases)
    case 1
    show ?case by (simp add: CreateContact_http_error [OF 1] r c p)
  next
    case 2
    show ?case by (simp add: GetContacts_http_error [OF 2] r c p)
  next
    case 3
    show ?case by (simp add: GetContact_http_error [OF 3] r c p)
  next
    case 4
    show ?case by (simp add: UpdateContact_http_error [OF 4] r c p)
  next
    case 5
    show ?case by (simp add: UpdateContactCustomFields_http_error [OF 5] r c p)
  next
    case 6
    show ?case by (simp add: DeleteContact_http_error [OF 6] r c p)
  next
    case 7
    show ?case by (simp add: CreateContact_base_error [OF 7] r c p)
  next
    case 8
    show ?case by (simp add: GetContacts_base_error [OF 8] r c p)
  next
    case 9
    show ?case by (simp add: GetContact_base_error [OF 9] r c p)
  next
    case 10
    show ?case by (simp add: UpdateContact_base_error [OF 10] r c p)
  next
    case 11
    show ?case by (simp add: UpdateContactCustomFields_base_error [OF 11] r c p)
  next
    case 12
    show ?case by (simp add: DeleteContact_base_error [OF 12] r c p)
  qed
qed

theorem undecodable_error_body_witness:
  "((500::int) < 200 \<or> (400::int) \<le> 500)
   \<and> fst (json_Unmarshal store_GetResponseError body_not_json zero_GetResponseError) = Some
       SyntaxError
   \<and> answered (snd (GetContact_http (test_lib 500 body_not_json) (test_client_http 500
       body_not_json) None (GetContactRequest ''foo'' [''name'', ''email'']))) 500 body_not_json
   \<and> snd (fst (GetContact_http (test_lib 500 body_not_json) (test_client_http 500 body_not_json)
       None (GetContactRequest ''foo'' [''name'', ''email'']))) = Some (JsonError SyntaxError)
   \<and> answered (snd (DeleteContact_base (test_lib 500 body_not_json) (test_client_base 500
       body_not_json) None ''123'' ''hello world'' ''127.0.0.1'')) 500 body_not_json
   \<and> fst (DeleteContact_base (test_lib 500 body_not_json) (test_client_base 500 body_not_json)
       None ''123'' ''hello world'' ''127.0.0.1'') = Some (errors_New
       ''could not unmarshal error response'')"
  using undecodable_error_body [where L = "test_lib 500 body_not_json" and g = "test_client_http
      500 body_not_json" and g' = "test_client_base 500 body_not_json" and cx = None and s = 500
      and ret = "body_not_json" and e = SyntaxError and rg = "GetContactRequest ''foo'' [''name'',
      ''email'']" and ID = "''123''" and messageID = "''hello world''" and ipAddress' =
      "''127.0.0.1''"]
  by (simp add: test_GetContact_http test_DeleteContact_base unmarshal_not_json)

text \<open>
  The claim as stated fails: on status 500 with the body \<^verbatim>\<open>{"not json"\<close> of the tests, create
  returns the bare syntax error (no \<^verbatim>\<open>GetResponseErrorRaw\<close> with the status and the bytes)
  through \<^verbatim>\<open>*http.Client\<close>, and the fixed-text error through \<^verbatim>\<open>BaseClient\<close>.
\<close>

theorem undecodable_error_body_counterexample:
  "fst (CreateContact_http (test_lib 500 body_not_json) (test_client_http 500 body_not_json) None
      (CreateContactRequest (Some ''foobar'') ''foo@bar.baz'' (Some 5) (Campaign []) [] None)) =
      Some (JsonError SyntaxError)
   \<and> (\<forall>err. fst (CreateContact_http (test_lib 500 body_not_json) (test_client_http 500
       body_not_json) None (CreateContactRequest (Some ''foobar'') ''foo@bar.baz'' (Some 5)
       (Campaign []) [] None)) \<noteq> Some (RawError err 500 body_not_json))
   \<and> fst (CreateContact_base (test_lib 500 body_not_json) (test_client_base 500 body_not_json)
       None ''foo@bar.baz'' (Some ''foobar'') (Some 5) [] [] None) = Some (errors_New
       ''could not unmarshal error response'')
   \<and> (\<forall>err. fst (CreateContact_base (test_lib 500 body_not_json) (test_client_base 500
       body_not_json) None ''foo@bar.baz'' (Some ''foobar'') (Some 5) [] [] None) \<noteq> Some (RawError
       err 500 body_not_json))"
  by (simp add: CreateContact_http_error [OF test_CreateContact_http]
      CreateContact_base_error [OF test_CreateContact_base]
      checkGetResponseError_def parseError_eq unmarshal_not_json)

text \<open>
  Claim C3. When the transport has answered with a status of at least 400 and the body
  \<^verbatim>\<open>{"code":1008,"message":"conflict"}\<close>, every operation of both clients returns an error
  whose \<^verbatim>\<open>Error()\<close> text is \<^verbatim>\<open>conflict\<close>.
\<close>

theorem conflict_message:
  assumes "400 \<le> s"
  shows
    "(answered (snd (CreateContact_http L g cx rc)) s body_conflict \<longrightarrow>
          Option.bind (fst (CreateContact_http L g cx rc)) Error = Some ''conflict'')
     \<and> (answered (snd (GetContacts_http L g cx rl)) s body_conflict \<longrightarrow>
          Option.bind (snd (fst (GetContacts_http L g cx rl))) Error = Some ''conflict'')
     \<and> (answered (snd (GetContact_http L g cx rg)) s body_conflict \<longrightarrow>
          Option.bind (snd (fst (GetContact_http L g cx rg))) Error = Some ''conflict'')
     \<and> (answered (snd (UpdateContact_http L g cx ru)) s body_conflict \<longrightarrow>
          Option.bind (snd (fst (UpdateContact_http L g cx ru))) Error = Some ''conflict'')
     \<and> (answered (snd (UpdateContactCustomFields_http L g cx rf)) s body_conflict \<longrightarrow>
          Option.bind (snd (fst (UpdateContactCustomFields_http L g cx rf))) Error
            = Some ''conflict'')
     \<and> (answered (snd (DeleteContact_http L g cx rd)) s body_conflict \<longrightarrow>
          Option.bind (fst (DeleteContact_http L g cx rd)) Error = Some ''conflict'')
     \<and> (answered (snd (CreateContact_base L g' cx email name dayOfCycle campaignID customFields
           ipAddress)) s body_conflict \<longrightarrow>
          Option.bind (fst (CreateContact_base L g' cx email name dayOfCycle campaignID
              customFields ipAddress)) Error
            = Some ''conflict'')
     \<and> (answered (snd (GetContacts_base L g' cx queryHash fields' sortHash page perPage flags)) s
           body_conflict \<longrightarrow>
          Option.bind (snd (fst (GetContacts_base L g' cx queryHash fields' sortHash page perPage
              flags))) Error
            = Some ''conflict'')
     \<and> (answered (snd (GetContact_base L g' cx ID fields')) s body_conflict \<longrightarrow>
          Option.bind (snd (fst (GetContact_base L g' cx ID fields'))) Error = Some ''conflict'')
     \<and> (answered (snd (UpdateContact_base L g' cx ID newData)) s body_conflict \<longrightarrow>
          Option.bind (snd (fst (UpdateContact_base L g' cx ID newData))) Error
            = Some ''conflict'')
     \<and> (answered (snd (UpdateContactCustomFields_base L g' cx ID customFields)) s body_conflict \<longrightarrow>
          Option.bind (snd (fst (UpdateContactCustomFields_base L g' cx ID customFields))) Error
            = Some ''conflict'')
     \<and> (answered (snd (DeleteContact_base L g' cx ID messageID ipAddress')) s body_conflict \<longrightarrow>
          Option.bind (fst (DeleteContact_base L g' cx ID messageID ipAddress')) Error
            = Some ''conflict'')"
proof -
  have out: "s < 200 \<or> 400 \<le> s" using assms by auto
  have r: "(200 \<le> s \<and> s < 400) = False" "(s < 200 \<or> 400 \<le> s) = True"
    using assms by auto
  have c: "checkGetResponseError s body_conflict None
      = Some (RemoteError (zero_GetResponseError\<lparr>ErrorCode := 1008, Message := ''conflict''\<rparr>))"
    by (simp add: check_failure [OF out] unmarshal_conflict)
  have p: "parseError body_conflict = Some (errors_New ''conflict'')"
    by (simp add: parseError_eq unmarshal_conflict)
  show ?thesis
  proof (intro conjI impI, goal_cases)
    case 1
    show ?case by (simp add: CreateContact_http_error [OF 1] r c p)
  next
    case 2
    show ?case by (simp add: GetContacts_http_error [OF 2] r c p)
  next
    case 3
    show ?case by (simp add: GetContact_http_error [OF 3] r c p)
  next
    case 4
    show ?case by (simp add: UpdateContact_http_error [OF 4] r c p)
  next
    case 5
    show ?case by (simp add: UpdateContactCustomFields_http_error [OF 5] r c p)
  next
    case 6
    show ?case by (simp add: DeleteContact_http_error [OF 6] r c p)
  next
    case 7
    show ?case by (simp add: CreateContact_base_error [OF 7] r c p)
  next
    case 8
    show ?case by (simp add: GetContacts_base_error [OF 8] r c p)
  next
    case 9
    show ?case by (simp add: GetContact_base_error [OF 9] r c p)
  next
    case 10
    show ?case by (simp add: UpdateContact_base_error [OF 10] r c p)
  next
    case 11
    show ?case by (simp add: UpdateContactCustomFields_base_error [OF 11] r c p)
  next
    case 12
    show ?case by (simp add: DeleteContact_base_error [OF 12] r c p)
  qed
qed

theorem conflict_message_witness:
  "(400::int) \<le> 409
   \<and> answered (snd (CreateContact_http (test_lib 409 body_conflict) (test_client_http 409
       body_conflict) None (CreateContactRequest (Some ''foobar'') ''foo@bar.baz'' (Some 5)
       (Campaign []) [] None))) 409 body_conflict
   \<and> Option.bind (fst (CreateContact_http (test_lib 409 body_conflict) (test_client_http 409
       body_conflict) None (CreateContactRequest (Some ''foobar'') ''foo@bar.baz'' (Some 5)
       (Campaign []) [] None))) Error = Some ''conflict''
   \<and> answered (snd (GetContacts_base (test_lib 409 body_conflict) (test_client_base 409
       body_conflict) None [] [] [] 1 10 None)) 409 body_conflict
   \<and> Option.bind (snd (fst (GetContacts_base (test_lib 409 body_conflict) (test_client_base 409
       body_conflict) None [] [] [] 1 10 None))) Error = Some ''conflict''"
  using conflict_message [where L = "test_lib 409 body_conflict" and g = "test_client_http 409
      body_conflict" and g' = "test_client_base 409 body_conflict" and cx = None and s = 409 and
      rc = "CreateContactRequest (Some ''foobar'') ''foo@bar.baz'' (Some 5) (Campaign []) [] None"
      and queryHash = "[]" and fields' = "[]" and sortHash = "[]" and page = 1 and perPage = 10
      and flags = None]
  by (simp add: test_CreateContact_http test_GetContacts_base)

section \<open>Malformed bodies\<close>

lemma unmarshal_syntax_error:
  "json_parse ret = None \<Longrightarrow> json_Unmarshal dec ret v = (Some SyntaxError, v)"
  by (simp add: json_Unmarshal_def)

text \<open>
  Claim C4, as amended. When the transport has answered with a body that is not well-formed
  JSON, an operation returns a decode failure whenever it decodes the body: every operation
  on a failure status (the decoder's syntax error through \<^verbatim>\<open>*http.Client\<close>, the fixed-text
  error through \<^verbatim>\<open>BaseClient\<close>), and the four operations with a payload on a success status
  (\<^verbatim>\<open>ErrCouldNotUnmarshal\<close>). Create and delete do not read the body on a success status and
  return a nil error.
\<close>

theorem malformed_body:
  assumes "json_parse ret = None"
  shows
    "(answered (snd (CreateContact_http L g cx rc)) s ret \<longrightarrow>
          fst (CreateContact_http L g cx rc)
            = (if 200 \<le> s \<and> s < 400 then None else Some (JsonError SyntaxError)))
     \<and> (answered (snd (GetContacts_http L g cx rl)) s ret \<longrightarrow>
          snd (fst (GetContacts_http L g cx rl))
            = Some (if 200 \<le> s \<and> s < 400 then ErrCouldNotUnmarshal else JsonError SyntaxError))
     \<and> (answered (snd (GetContact_http L g cx rg)) s ret \<longrightarrow>
          snd (fst (GetContact_http L g cx rg))
            = Some (if 200 \<le> s \<and> s < 400 then ErrCouldNotUnmarshal else JsonError SyntaxError))
     \<and> (answered (snd (UpdateContact_http L g cx ru)) s ret \<longrightarrow>
          snd (fst (UpdateContact_http L g cx ru))
            = Some (if 200 \<le> s \<and> s < 400 then ErrCouldNotUnmarshal else JsonError SyntaxError))
     \<and> (answered (snd (UpdateContactCustomFields_http L g cx rf)) s ret \<longrightarrow>
          snd (fst (UpdateContactCustomFields_http L g cx rf))
            = Some (if 200 \<le> s \<and> s < 400 then ErrCouldNotUnmarshal else JsonError SyntaxError))
     \<and> (answered (snd (DeleteContact_http L g cx rd)) s ret \<longrightarrow>
          fst (DeleteContact_http L g cx rd)
            = (if 200 \<le> s \<and> s < 400 then None else Some (JsonError SyntaxError)))
     \<and> (answered (snd (CreateContact_base L g' cx email name dayOfCycle campaignID customFields
           ipAddress)) s ret \<longrightarrow>
          fst (CreateContact_base L g' cx email name dayOfCycle campaignID customFields ipAddress)
            = (if 200 \<le> s \<and> s < 400 then None else Some (errors_New
                ''could not unmarshal error response'')))
     \<and> (answered (snd (GetContacts_base L g' cx queryHash fields' sortHash page perPage flags)) s
           ret \<longrightarrow>
          snd (fst (GetContacts_base L g' cx queryHash fields' sortHash page perPage flags))
            = Some (if 200 \<le> s \<and> s < 400 then ErrCouldNotUnmarshal else errors_New
                ''could not unmarshal error response''))
     \<and> (answered (snd (GetContact_base L g' cx ID fields')) s ret \<longrightarrow>
          snd (fst (GetContact_base L g' cx ID fields'))
            = Some (if 200 \<le> s \<and> s < 400 then ErrCouldNotUnmarshal else errors_New
                ''could not unmarshal error response''))
     \<and> (answered (snd (UpdateContact_base L g' cx ID newData)) s ret \<longrightarrow>
          snd (fst (UpdateContact_base L g' cx ID newData))
            = Some (if 200 \<le> s \<and> s < 400 then ErrCouldNotUnmarshal else errors_New
                ''could not unmarshal error response''))
     \<and> (answered (snd (UpdateContactCustomFields_base L g' cx ID customFields)) s ret \<longrightarrow>
          snd (fst (UpdateContactCustomFields_base L g' cx ID customFields))
            = Some (if 200 \<le> s \<and> s < 400 then ErrCouldNotUnmarshal else errors_New
                ''could not unmarshal error response''))
     \<and> (answered (snd (DeleteContact_base L g' cx ID messageID ipAddress')) s ret \<longrightarrow>
          fst (DeleteContact_base L g' cx ID messageID ipAddress')
            = (if 200 \<le> s \<and> s < 400 then None else Some (errors_New
                ''could not unmarshal error response'')))"
proof -
  note un = unmarshal_syntax_error [OF assms]
  have c: "checkGetResponseError s ret None
      = (if 200 \<le> s \<and> s < 400 then None else Some (JsonError SyntaxError))"
    by (simp add: checkGetResponseError_def un)
  have p: "parseError ret = Some (errors_New ''could not unmarshal error response'')"
    by (simp add: parseError_eq un)
  show ?thesis
  proof (intro conjI impI, goal_cases)
    case 1
    show ?case by (simp add: CreateContact_http_error [OF 1] c p un failure_status
        payload_error_def)
  next
    case 2
    show ?case by (simp add: GetContacts_http_error [OF 2] c p un failure_status
        payload_error_def)
  next
    case 3
    show ?case by (simp add: GetContact_http_error [OF 3] c p un failure_status payload_error_def)
  next
    case 4
    show ?case by (simp add: UpdateContact_http_error [OF 4] c p un failure_status
        payload_error_def)
  next
    case 5
    show ?case by (simp add: UpdateContactCustomFields_http_error [OF 5] c p un failure_status
        payload_error_def)
  next
    case 6
    show ?case by (simp add: DeleteContact_http_error [OF 6] c p un failure_status
        payload_error_def)
  next
    case 7
    show ?case by (simp add: CreateContact_base_error [OF 7] c p un failure_status
        payload_error_def)
  next
    case 8
    show ?case by (simp add: GetContacts_base_error [OF 8] c p un failure_status
        payload_error_def)
  next
    case 9
    show ?case by (simp add: GetContact_base_error [OF 9] c p un failure_status payload_error_def)
  next
    case 10
    show ?case by (simp add: UpdateContact_base_error [OF 10] c p un failure_status
        payload_error_def)
  next
    case 11
    show ?case by (simp add: UpdateContactCustomFields_base_error [OF 11] c p un failure_status
        payload_error_def)
  next
    case 12
    show ?case by (simp add: DeleteContact_base_error [OF 12] c p un failure_status
        payload_error_def)
  qed
qed

theorem malformed_body_witness:
  "json_parse body_not_json = None
   \<and> answered (snd (UpdateContact_http (test_lib 500 body_not_json) (test_client_http 500
       body_not_json) None (UpdateContactRequest ''foo'' (Some ''foobar'', None)))) 500
       body_not_json
   \<and> snd (fst (UpdateContact_http (test_lib 500 body_not_json) (test_client_http 500
       body_not_json) None (UpdateContactRequest ''foo'' (Some ''foobar'', None)))) = Some
       (JsonError SyntaxError)
   \<and> answered (snd (DeleteContact_base (test_lib 500 body_not_json) (test_client_base 500
       body_not_json) None ''123'' ''hello world'' ''127.0.0.1'')) 500 body_not_json
   \<and> fst (DeleteContact_base (test_lib 500 body_not_json) (test_client_base 500 body_not_json)
       None ''123'' ''hello world'' ''127.0.0.1'') = Some (errors_New
       ''could not unmarshal error response'')"
  using malformed_body [where L = "test_lib 500 body_not_json" and g = "test_client_http 500
      body_not_json" and g' = "test_client_base 500 body_not_json" and cx = None and s = 500 and
      ret = "body_not_json" and ru = "UpdateContactRequest ''foo'' (Some ''foobar'', None)" and ID
      = "''123''" and messageID = "''hello world''" and ipAddress' = "''127.0.0.1''"]
  by (simp add: test_UpdateContact_http test_DeleteContact_base parse_not_json)

text \<open>
  The claim as stated fails for the operations without a payload: on status 200 with the
  malformed body \<^verbatim>\<open>{"not json"\<close>, create and delete of both clients return a nil error.
\<close>

theorem malformed_body_counterexample:
  "json_parse body_not_json = None
   \<and> fst (CreateContact_http (test_lib 200 body_not_json) (test_client_http 200 body_not_json)
       None (CreateContactRequest (Some ''foobar'') ''foo@bar.baz'' (Some 5) (Campaign []) []
       None)) = None
   \<and> fst (DeleteContact_http (test_lib 200 body_not_json) (test_client_http 200 body_not_json)
       None (DeleteContactRequest ''123'' ''hello world'' ''127.0.0.1'')) = None
   \<and> fst (CreateContact_base (test_lib 200 body_not_json) (test_client_base 200 body_not_json)
       None ''foo@bar.baz'' (Some ''foobar'') (Some 5) [] [] None) = None
   \<and> fst (DeleteContact_base (test_lib 200 body_not_json) (test_client_base 200 body_not_json)
       None ''123'' ''hello world'' ''127.0.0.1'') = None"
  by (simp add: parse_not_json
      CreateContact_http_error [OF test_CreateContact_http]
      DeleteContact_http_error [OF test_DeleteContact_http]
      CreateContact_base_error [OF test_CreateContact_base]
      DeleteContact_base_error [OF test_DeleteContact_base]
      checkGetResponseError_def)

section \<open>The two clients side by side\<close>

text \<open>
  Claim C6, as amended. The two clients draw the same boundary: when the transport has
  answered an operation of each with the same status and body, one takes the success path
  exactly when the other does (for both, exactly when the status lies in \<open>[200, 400)\<close>).
\<close>

theorem same_status_boundary:
  "(answered (snd (CreateContact_http L g cx rc)) s ret \<and> answered (snd (CreateContact_base L g'
        cx email name dayOfCycle campaignID customFields ipAddress)) s ret \<longrightarrow>
        (fst (CreateContact_http L g cx rc) = None)
          = (fst (CreateContact_base L g' cx email name dayOfCycle campaignID customFields
              ipAddress) = None)
        \<and> from_error_body (fst (CreateContact_http L g cx rc))
          = from_error_body (fst (CreateContact_base L g' cx email name dayOfCycle campaignID
              customFields ipAddress)))
   \<and> (answered (snd (GetContacts_http L g cx rl)) s ret \<and> answered (snd (GetContacts_base L g' cx
         queryHash fields' sortHash page perPage flags)) s ret \<longrightarrow>
        from_error_body (snd (fst (GetContacts_http L g cx rl)))
          = from_error_body (snd (fst (GetContacts_base L g' cx queryHash fields' sortHash page
              perPage flags))))
   \<and> (answered (snd (GetContact_http L g cx rg)) s ret \<and> answered (snd (GetContact_base L g' cx ID
         fields')) s ret \<longrightarrow>
        from_error_body (snd (fst (GetContact_http L g cx rg)))
          = from_error_body (snd (fst (GetContact_base L g' cx ID fields'))))
   \<and> (answered (snd (UpdateContact_http L g cx ru)) s ret \<and> answered (snd (UpdateContact_base L g'
         cx ID newData)) s ret \<longrightarrow>
        from_error_body (snd (fst (UpdateContact_http L g cx ru)))
          = from_error_body (snd (fst (UpdateContact_base L g' cx ID newData))))
   \<and> (answered (snd (UpdateContactCustomFields_http L g cx rf)) s ret \<and> answered (snd
         (UpdateContactCustomFields_base L g' cx ID customFields)) s ret \<longrightarrow>
        from_error_body (snd (fst (UpdateContactCustomFields_http L g cx rf)))
          = from_error_body (snd (fst (UpdateContactCustomFields_base L g' cx ID customFields))))
   \<and> (answered (snd (DeleteContact_http L g cx rd)) s ret \<and> answered (snd (DeleteContact_base L g'
         cx ID messageID ipAddress')) s ret \<longrightarrow>
        (fst (DeleteContact_http L g cx rd) = None)
          = (fst (DeleteContact_base L g' cx ID messageID ipAddress') = None)
        \<and> from_error_body (fst (DeleteContact_http L g cx rd))
          = from_error_body (fst (DeleteContact_base L g' cx ID messageID ipAddress')))"
proof (intro conjI impI, goal_cases)
  case 1
  show ?case by (simp add: CreateContact_http_error [OF 1 [THEN conjunct1]]
      CreateContact_base_error [OF 1 [THEN conjunct2]] classify)
next
  case 2
  show ?case by (simp add: CreateContact_http_error [OF 2 [THEN conjunct1]]
      CreateContact_base_error [OF 2 [THEN conjunct2]] classify)
next
  case 3
  show ?case by (simp add: GetContacts_http_error [OF 3 [THEN conjunct1]] GetContacts_base_error
      [OF 3 [THEN conjunct2]] classify)
next
  case 4
  show ?case by (simp add: GetContact_http_error [OF 4 [THEN conjunct1]] GetContact_base_error [OF
      4 [THEN conjunct2]] classify)
next
  case 5
  show ?case by (simp add: UpdateContact_http_error [OF 5 [THEN conjunct1]]
      UpdateContact_base_error [OF 5 [THEN conjunct2]] classify)
next
  case 6
  show ?case by (simp add: UpdateContactCustomFields_http_error [OF 6 [THEN conjunct1]]
      UpdateContactCustomFields_base_error [OF 6 [THEN conjunct2]] classify)
next
  case 7
  show ?case by (simp add: DeleteContact_http_error [OF 7 [THEN conjunct1]]
      DeleteContact_base_error [OF 7 [THEN conjunct2]] classify)
next
  case 8
  show ?case by (simp add: DeleteContact_http_error [OF 8 [THEN conjunct1]]
      DeleteContact_base_error [OF 8 [THEN conjunct2]] classify)
qed

theorem same_status_boundary_witness:
  "answered (snd (DeleteContact_http (test_lib 199 body_empty_object) (test_client_http 199
      body_empty_object) None (DeleteContactRequest ''123'' ''hello world'' ''127.0.0.1''))) 199
      body_empty_object
   \<and> answered (snd (DeleteContact_base (test_lib 199 body_empty_object) (test_client_base 199
       body_empty_object) None ''123'' ''hello world'' ''127.0.0.1'')) 199 body_empty_object
   \<and> (fst (DeleteContact_http (test_lib 199 body_empty_object) (test_client_http 199
       body_empty_object) None (DeleteContactRequest ''123'' ''hello world'' ''127.0.0.1'')) =
       None) = (fst (DeleteContact_base (test_lib 199 body_empty_object) (test_client_base 199
       body_empty_object) None ''123'' ''hello world'' ''127.0.0.1'') = None)"
  using same_status_boundary [where L = "test_lib 199 body_empty_object" and g = "test_client_http
      199 body_empty_object" and g' = "test_client_base 199 body_empty_object" and cx = None and s
      = 199 and ret = "body_empty_object" and rd = "DeleteContactRequest ''123'' ''hello world''
      ''127.0.0.1''" and ID = "''123''" and messageID = "''hello world''" and ipAddress' =
      "''127.0.0.1''"]
  by (simp add: test_DeleteContact_http test_DeleteContact_base)

text \<open>
  The claim as stated fails: no status is a success for one client and a failure for the
  other. Against the test server, delete returns a nil error through one client exactly
  when it does through the other, for every status.
\<close>

theorem same_status_boundary_counterexample:
  "\<not> (\<exists>s. (fst (DeleteContact_http (test_lib s body_empty_object) (test_client_http s
      body_empty_object) None (DeleteContactRequest ''123'' ''hello world'' ''127.0.0.1'')) =
      None) \<noteq> (fst (DeleteContact_base (test_lib s body_empty_object) (test_client_base s
      body_empty_object) None ''123'' ''hello world'' ''127.0.0.1'') = None))"
  by (auto simp: DeleteContact_http_error [OF test_DeleteContact_http]
      DeleteContact_base_error [OF test_DeleteContact_base] check_None_iff parseError_not_None)

section \<open>The requests the clients send\<close>

lemma canonical_auth: "CanonicalMIMEHeaderKey XAuthTokenHeader = ''X-Auth-Token''"
  by code_simp

lemma canonical_content_type: "CanonicalMIMEHeaderKey ''Content-type'' = ''Content-Type''"
  by code_simp

lemma canonical_domain: "CanonicalMIMEHeaderKey XDomainHeader = ''X-Domain''"
  by code_simp

lemma buildDefaultHeaders_auth:
  "buildDefaultHeaders g ''X-Auth-Token'' = Some [''api-key '' @ apiKey_base g]"
  by (simp add: buildDefaultHeaders_def Header_Set_def canonical_auth canonical_content_type
      canonical_domain Let_def)

lemma buildDefaultHeaders_domain:
  "buildDefaultHeaders g ''X-Domain'' = (if domain_base g \<noteq> [] then Some [domain_base g] else None)"
  by (simp add: buildDefaultHeaders_def Header_Set_def canonical_auth canonical_content_type
      canonical_domain Let_def)

lemma answered_one:
  "answered exchanges s ret \<Longrightarrow> \<exists>req resp. exchanges = [(req, Inr resp)]"
  by (cases "(exchanges, s, ret)" rule: answered.cases) simp_all

text \<open>What \<^verbatim>\<open>MakeRequest\<close> and \<^verbatim>\<open>roundTrip\<close> hand to the transport.\<close>

lemma MakeRequest_sent:
  "x \<in> set (snd (MakeRequest L c cx m slug q h b)) \<Longrightarrow>
   Method (fst x) = m \<and> Path (URL (fst x)) = slug \<and> RawQuery (URL (fst x)) = Values_Encode q
   \<and> Header (fst x) = h"
  by (auto simp: MakeRequest_def http_NewRequest_def Let_def
      split: prod.splits option.splits sum.splits)

lemma roundTrip_sent:
  "x \<in> set (snd (roundTrip L g cx m p q b)) \<Longrightarrow>
   Method (fst x) = m \<and> RawQuery (URL (fst x)) = Values_Encode q \<and> Header (fst x) = Map.empty
   \<and> (\<exists>u. url_Parse L (apiUrl g @ p) = Inr u \<and> Path (URL (fst x)) = Path u)"
  by (auto simp: roundTrip_def http_NewRequest_def Let_def
      split: prod.splits option.splits sum.splits)

text \<open>The header of every request of an operation.\<close>

lemma base_header:
  "x \<in> set (snd (CreateContact_base L g' cx email name dayOfCycle campaignID customFields
      ipAddress)) \<Longrightarrow> Header (fst x) = buildDefaultHeaders g'"
  "x \<in> set (snd (GetContacts_base L g' cx queryHash fields' sortHash page perPage flags)) \<Longrightarrow> Header
      (fst x) = buildDefaultHeaders g'"
  "x \<in> set (snd (GetContact_base L g' cx ID fields')) \<Longrightarrow> Header (fst x) = buildDefaultHeaders g'"
  "x \<in> set (snd (UpdateContact_base L g' cx ID newData)) \<Longrightarrow> Header (fst x) = buildDefaultHeaders
      g'"
  "x \<in> set (snd (UpdateContactCustomFields_base L g' cx ID customFields)) \<Longrightarrow> Header (fst x) =
      buildDefaultHeaders g'"
  "x \<in> set (snd (DeleteContact_base L g' cx ID messageID ipAddress')) \<Longrightarrow> Header (fst x) =
      buildDefaultHeaders g'"
proof -
  show "x \<in> set (snd (CreateContact_base L g' cx email name dayOfCycle campaignID customFields
      ipAddress)) \<Longrightarrow> Header (fst x) = buildDefaultHeaders g'"
    by (auto simp: CreateContact_base_exchanges split: sum.splits dest: MakeRequest_sent)
  show "x \<in> set (snd (GetContacts_base L g' cx queryHash fields' sortHash page perPage flags)) \<Longrightarrow>
      Header (fst x) = buildDefaultHeaders g'"
    by (auto simp: GetContacts_base_exchanges split: sum.splits dest: MakeRequest_sent)
  show "x \<in> set (snd (GetContact_base L g' cx ID fields')) \<Longrightarrow> Header (fst x) = buildDefaultHeaders
      g'"
    by (auto simp: GetContact_base_exchanges split: sum.splits dest: MakeRequest_sent)
  show "x \<in> set (snd (UpdateContact_base L g' cx ID newData)) \<Longrightarrow> Header (fst x) =
      buildDefaultHeaders g'"
    by (auto simp: UpdateContact_base_exchanges split: sum.splits dest: MakeRequest_sent)
  show "x \<in> set (snd (UpdateContactCustomFields_base L g' cx ID customFields)) \<Longrightarrow> Header (fst x) =
      buildDefaultHeaders g'"
    by (auto simp: UpdateContactCustomFields_base_exchanges split: sum.splits dest: MakeRequest_sent)
  show "x \<in> set (snd (DeleteContact_base L g' cx ID messageID ipAddress')) \<Longrightarrow> Header (fst x) =
      buildDefaultHeaders g'"
    by (auto simp: DeleteContact_base_exchanges split: sum.splits dest: MakeRequest_sent)
qed

lemma http_header:
  "x \<in> set (snd (CreateContact_http L g cx rc)) \<Longrightarrow> Header (fst x) = Map.empty"
  "x \<in> set (snd (GetContacts_http L g cx rl)) \<Longrightarrow> Header (fst x) = Map.empty"
  "x \<in> set (snd (GetContact_http L g cx rg)) \<Longrightarrow> Header (fst x) = Map.empty"
  "x \<in> set (snd (UpdateContact_http L g cx ru)) \<Longrightarrow> Header (fst x) = Map.empty"
  "x \<in> set (snd (UpdateContactCustomFields_http L g cx rf)) \<Longrightarrow> Header (fst x) = Map.empty"
  "x \<in> set (snd (DeleteContact_http L g cx rd)) \<Longrightarrow> Header (fst x) = Map.empty"
proof -
  show "x \<in> set (snd (CreateContact_http L g cx rc)) \<Longrightarrow> Header (fst x) = Map.empty"
    by (auto simp: CreateContact_http_exchanges split: sum.splits dest: roundTrip_sent)
  show "x \<in> set (snd (GetContacts_http L g cx rl)) \<Longrightarrow> Header (fst x) = Map.empty"
    by (cases rl) (auto simp: GetContacts_http_exchanges split: sum.splits dest: roundTrip_sent)
  show "x \<in> set (snd (GetContact_http L g cx rg)) \<Longrightarrow> Header (fst x) = Map.empty"
    by (cases rg) (auto simp: GetContact_http_exchanges split: sum.splits dest: roundTrip_sent)
  show "x \<in> set (snd (UpdateContact_http L g cx ru)) \<Longrightarrow> Header (fst x) = Map.empty"
    by (cases ru) (auto simp: UpdateContact_http_exchanges split: sum.splits dest: roundTrip_sent)
  show "x \<in> set (snd (UpdateContactCustomFields_http L g cx rf)) \<Longrightarrow> Header (fst x) = Map.empty"
    by (cases rf) (auto simp: UpdateContactCustomFields_http_exchanges split: sum.splits dest: roundTrip_sent)
  show "x \<in> set (snd (DeleteContact_http L g cx rd)) \<Longrightarrow> Header (fst x) = Map.empty"
    by (cases rd) (auto simp: DeleteContact_http_exchanges split: sum.splits dest: roundTrip_sent)
qed

lemma delete_query_encoded:
  "Values_Encode (delete_query ''hello world'' ''127.0.0.1'') = ''ipAddress=127.0.0.1&messageId=hello+world''"
  by code_simp

text \<open>
  Claim C5 holds for the client over \<^verbatim>\<open>BaseClient\<close> (\<open>base_header\<close>, \<open>buildDefaultHeaders_auth\<close>,
  \<open>buildDefaultHeaders_domain\<close>) and fails for the client over \<^verbatim>\<open>*http.Client\<close>: \<^verbatim>\<open>roundTrip\<close>
  builds the header and never attaches it (\<open>http_header\<close>). Against the test server, with
  the key \<^verbatim>\<open>secret\<close> and the domain \<^verbatim>\<open>tenant\<close> configured, the one request that delete sends
  has neither the authentication header nor the domain header; the same call through
  \<^verbatim>\<open>BaseClient\<close> carries \<^verbatim>\<open>api-key secret\<close>.
\<close>

theorem http_client_sends_no_auth_header:
  "apiKey_http (test_client_http 204 []) = ''secret''
   \<and> domain_http (test_client_http 204 []) = ''tenant''
   \<and> map (\<lambda>x. (Header (fst x) ''X-Auth-Token'', Header (fst x) ''X-Domain''))
        (snd (DeleteContact_http (test_lib 204 []) (test_client_http 204 []) None
           (DeleteContactRequest ''123'' ''hello world'' ''127.0.0.1''))) = [(None, None)]
   \<and> map (\<lambda>x. Header (fst x) ''X-Auth-Token'')
        (snd (DeleteContact_base (test_lib 204 []) (test_client_base 204 []) None
           ''123'' ''hello world'' ''127.0.0.1'')) = [Some [''api-key secret'']]"
proof -
  have "apiKey_base (test_client_base 204 []) = ''secret''"
    by (simp add: test_client_base_def NewClient_base_def)
  then show ?thesis
    by (simp add: DeleteContact_http_exchanges DeleteContact_base_exchanges test_roundTrip
        test_MakeRequest buildDefaultHeaders_auth)
      (simp add: test_client_http_def NewClient_http_def)
qed

text \<open>
  Claim C7, as amended. For the delete operation with contact id \<^verbatim>\<open>123\<close>, message id
  \<^verbatim>\<open>hello world\<close> and IP \<^verbatim>\<open>127.0.0.1\<close>, a transport that answers has been handed exactly one
  request: its method is \<^verbatim>\<open>DELETE\<close> and its query string is
  \<^verbatim>\<open>ipAddress=127.0.0.1&messageId=hello+world\<close>, the keys in sorted order. Its path is
  \<^verbatim>\<open>/v3/contacts/123\<close> through \<^verbatim>\<open>BaseClient\<close>, and the path that \<^verbatim>\<open>url.Parse\<close> finds in the
  configured URL followed by \<^verbatim>\<open>/v3/contacts/123\<close> through \<^verbatim>\<open>*http.Client\<close>. Any 2xx status
  yields a nil error.
\<close>

theorem delete_request:
  assumes "200 \<le> s" and "s < 300"
  shows
    "(answered (snd (DeleteContact_base L g' cx ''123'' ''hello world'' ''127.0.0.1'')) s ret \<longrightarrow>
        fst (DeleteContact_base L g' cx ''123'' ''hello world'' ''127.0.0.1'') = None
        \<and> (\<exists>r x. snd (DeleteContact_base L g' cx ''123'' ''hello world'' ''127.0.0.1'') = [(r, x)]
              \<and> Method r = ''DELETE'' \<and> Path (URL r) = ''/v3/contacts/123''
              \<and> RawQuery (URL r) = ''ipAddress=127.0.0.1&messageId=hello+world''))
     \<and> (answered (snd (DeleteContact_http L g cx
            (DeleteContactRequest ''123'' ''hello world'' ''127.0.0.1''))) s ret \<longrightarrow>
        fst (DeleteContact_http L g cx (DeleteContactRequest ''123'' ''hello world'' ''127.0.0.1'')) = None
        \<and> (\<exists>r x u. snd (DeleteContact_http L g cx
                (DeleteContactRequest ''123'' ''hello world'' ''127.0.0.1'')) = [(r, x)]
              \<and> Method r = ''DELETE''
              \<and> url_Parse L (apiUrl g @ ''/v3/contacts/123'') = Inr u \<and> Path (URL r) = Path u
              \<and> RawQuery (URL r) = ''ipAddress=127.0.0.1&messageId=hello+world''))"
proof -
  have ok: "(200 \<le> s \<and> s < 400) = True" "(s < 200 \<or> 400 \<le> s) = False"
    using assms by auto
  let ?q = "delete_query ''hello world'' ''127.0.0.1''"
  let ?b = "DeleteContact_base L g' cx ''123'' ''hello world'' ''127.0.0.1''"
  let ?h = "DeleteContact_http L g cx (DeleteContactRequest ''123'' ''hello world'' ''127.0.0.1'')"
  have base: "answered (snd ?b) s ret \<longrightarrow>
      fst ?b = None
      \<and> (\<exists>r x. snd ?b = [(r, x)] \<and> Method r = ''DELETE'' \<and> Path (URL r) = ''/v3/contacts/123''
            \<and> RawQuery (URL r) = ''ipAddress=127.0.0.1&messageId=hello+world'')"
  proof
    assume a: "answered (snd ?b) s ret"
    have e: "fst ?b = None"
      by (simp add: DeleteContact_base_error [OF a] ok)
    from answered_one [OF a] obtain r x where one: "snd ?b = [(r, x)]" by blast
    then have "(r, x) \<in> set (snd (MakeRequest L (c_base g') cx ''DELETE'' (''/v3/contacts/'' @ ''123'') ?q
        (buildDefaultHeaders g') None))"
      by (simp add: DeleteContact_base_exchanges)
    from MakeRequest_sent [OF this] have
      "Method r = ''DELETE'' \<and> Path (URL r) = ''/v3/contacts/123''
       \<and> RawQuery (URL r) = ''ipAddress=127.0.0.1&messageId=hello+world''"
      by (simp add: delete_query_encoded)
    with e one show "fst ?b = None
      \<and> (\<exists>r x. snd ?b = [(r, x)] \<and> Method r = ''DELETE'' \<and> Path (URL r) = ''/v3/contacts/123''
            \<and> RawQuery (URL r) = ''ipAddress=127.0.0.1&messageId=hello+world'')"
      by blast
  qed
  have http: "answered (snd ?h) s ret \<longrightarrow>
      fst ?h = None
      \<and> (\<exists>r x u. snd ?h = [(r, x)] \<and> Method r = ''DELETE''
            \<and> url_Parse L (apiUrl g @ ''/v3/contacts/123'') = Inr u \<and> Path (URL r) = Path u
            \<and> RawQuery (URL r) = ''ipAddress=127.0.0.1&messageId=hello+world'')"
  proof
    assume a: "answered (snd ?h) s ret"
    have e: "fst ?h = None"
      by (simp add: DeleteContact_http_error [OF a] checkGetResponseError_def ok)
    from answered_one [OF a] obtain r x where one: "snd ?h = [(r, x)]" by blast
    then have "(r, x) \<in> set (snd (roundTrip L g cx ''DELETE'' (''/v3/contacts/'' @ ''123'') ?q []))"
      by (simp add: DeleteContact_http_exchanges)
    from roundTrip_sent [OF this] obtain u where
      "Method r = ''DELETE'' \<and> url_Parse L (apiUrl g @ ''/v3/contacts/123'') = Inr u
       \<and> Path (URL r) = Path u \<and> RawQuery (URL r) = ''ipAddress=127.0.0.1&messageId=hello+world''"
      by (auto simp: delete_query_encoded)
    with e one show "fst ?h = None
      \<and> (\<exists>r x u. snd ?h = [(r, x)] \<and> Method r = ''DELETE''
            \<and> url_Parse L (apiUrl g @ ''/v3/contacts/123'') = Inr u \<and> Path (URL r) = Path u
            \<and> RawQuery (URL r) = ''ipAddress=127.0.0.1&messageId=hello+world'')"
      by blast
  qed
  from base http show ?thesis by (rule conjI)
qed

theorem delete_request_witness:
  "(200::int) \<le> 204 \<and> (204::int) < 300
   \<and> answered (snd (DeleteContact_base (test_lib 204 []) (test_client_base 204 []) None
        ''123'' ''hello world'' ''127.0.0.1'')) 204 []
   \<and> fst (DeleteContact_base (test_lib 204 []) (test_client_base 204 []) None
        ''123'' ''hello world'' ''127.0.0.1'') = None
   \<and> answered (snd (DeleteContact_http (test_lib 204 []) (test_client_http 204 []) None
        (DeleteContactRequest ''123'' ''hello world'' ''127.0.0.1''))) 204 []
   \<and> fst (DeleteContact_http (test_lib 204 []) (test_client_http 204 []) None
        (DeleteContactRequest ''123'' ''hello world'' ''127.0.0.1'')) = None"
  using delete_request [where L = "test_lib 204 []" and g = "test_client_http 204 []"
      and g' = "test_client_base 204 []" and cx = None and s = 204 and ret = "[]"]
  by (simp add: test_DeleteContact_http test_DeleteContact_base)

text \<open>
  The claim as stated fails: the query string of the request is not
  \<^verbatim>\<open>messageId=hello+world&ipAddress=127.0.0.1\<close>. \<^verbatim>\<open>Values.Encode\<close> sorts the keys, so both
  clients send \<^verbatim>\<open>DELETE /v3/contacts/123?ipAddress=127.0.0.1&messageId=hello+world\<close>.
\<close>

theorem delete_request_counterexample:
  "map (\<lambda>x. (Method (fst x), Path (URL (fst x)), RawQuery (URL (fst x))))
     (snd (DeleteContact_http (test_lib 204 []) (test_client_http 204 []) None
        (DeleteContactRequest ''123'' ''hello world'' ''127.0.0.1'')))
     = [(''DELETE'', ''/v3/contacts/123'', ''ipAddress=127.0.0.1&messageId=hello+world'')]
   \<and> map (\<lambda>x. (Method (fst x), Path (URL (fst x)), RawQuery (URL (fst x))))
     (snd (DeleteContact_base (test_lib 204 []) (test_client_base 204 []) None
        ''123'' ''hello world'' ''127.0.0.1''))
     = [(''DELETE'', ''/v3/contacts/123'', ''ipAddress=127.0.0.1&messageId=hello+world'')]
   \<and> ''ipAddress=127.0.0.1&messageId=hello+world'' \<noteq> ''messageId=hello+world&ipAddress=127.0.0.1''"
  by (simp add: DeleteContact_http_exchanges DeleteContact_base_exchanges test_roundTrip
      test_MakeRequest delete_query_encoded)

text \<open>
  Claim C10. A client built by \<^verbatim>\<open>NewClient\<close> of \<^verbatim>\<open>client.go\<close> has an empty domain, and no
  request of any of its operations carries the domain header.
\<close>

theorem NewClient_never_sends_domain:
  "domain_base (NewClient_base L apiKey' apiUrl' timeout) = []
   \<and> (\<forall>x \<in> set (snd (CreateContact_base L (NewClient_base L apiKey' apiUrl' timeout) cx
          email name dayOfCycle campaignID customFields ipAddress)). Header (fst x) ''X-Domain'' = None)
   \<and> (\<forall>x \<in> set (snd (GetContacts_base L (NewClient_base L apiKey' apiUrl' timeout) cx
          queryHash fields' sortHash page perPage flags)). Header (fst x) ''X-Domain'' = None)
   \<and> (\<forall>x \<in> set (snd (GetContact_base L (NewClient_base L apiKey' apiUrl' timeout) cx ID fields')).
          Header (fst x) ''X-Domain'' = None)
   \<and> (\<forall>x \<in> set (snd (UpdateContact_base L (NewClient_base L apiKey' apiUrl' timeout) cx ID newData)).
          Header (fst x) ''X-Domain'' = None)
   \<and> (\<forall>x \<in> set (snd (UpdateContactCustomFields_base L (NewClient_base L apiKey' apiUrl' timeout) cx
          ID customFields)). Header (fst x) ''X-Domain'' = None)
   \<and> (\<forall>x \<in> set (snd (DeleteContact_base L (NewClient_base L apiKey' apiUrl' timeout) cx
          ID messageID ipAddress')). Header (fst x) ''X-Domain'' = None)"
proof -
  have d: "domain_base (NewClient_base L apiKey' apiUrl' timeout) = []"
    by (simp add: NewClient_base_def)
  then have "buildDefaultHeaders (NewClient_base L apiKey' apiUrl' timeout) ''X-Domain'' = None"
    by (simp add: buildDefaultHeaders_domain)
  with d show ?thesis by (auto dest!: base_header)
qed

theorem NewClient_never_sends_domain_witness:
  "map (\<lambda>x. Header (fst x) ''X-Domain'')
     (snd (DeleteContact_base (test_lib 204 []) (NewClient_base (test_lib 204 []) ''secret'' ''http://127.0.0.1:8080'' 5)
        None ''123'' ''hello world'' ''127.0.0.1'')) = [None]"
proof -
  let ?g = "NewClient_base (test_lib 204 []) ''secret'' ''http://127.0.0.1:8080'' 5"
  let ?sent = "snd (DeleteContact_base (test_lib 204 []) ?g None ''123'' ''hello world'' ''127.0.0.1'')"
  have "\<exists>x. ?sent = [x]"
    using test_MakeRequest [of 204 "[]"]
    by (simp add: DeleteContact_base_exchanges test_client_base_def)
  moreover have "\<forall>x \<in> set ?sent. Header (fst x) ''X-Domain'' = None"
    using NewClient_never_sends_domain [of "test_lib 204 []" "''secret''" "''http://127.0.0.1:8080''" 5]
    by blast
  ultimately show ?thesis by auto
qed

section \<open>Missing members of an error response\<close>

lemma store_member_Message:
  "\<not> equalFold ''message'' (fst kv) \<Longrightarrow> Message (snd (store_member st kv)) = Message (snd st)"
  by (cases st; cases kv) (auto simp: store_member_def split: prod.splits)

lemma store_member_ErrorCode:
  "\<not> equalFold ''code'' (fst kv) \<Longrightarrow> ErrorCode (snd (store_member st kv)) = ErrorCode (snd st)"
  by (cases st; cases kv) (auto simp: store_member_def split: prod.splits)

lemma absent_message:
  "\<not> has_member ''message'' ms \<Longrightarrow> Message (snd (foldl store_member st ms)) = Message (snd st)"
  by (induction ms arbitrary: st) (simp_all add: has_member_def store_member_Message)

lemma absent_code:
  "\<not> has_member ''code'' ms \<Longrightarrow> ErrorCode (snd (foldl store_member st ms)) = ErrorCode (snd st)"
  by (induction ms arbitrary: st) (simp_all add: has_member_def store_member_ErrorCode)

lemma parse_code_only: "json_parse body_code_only = Some (JObject [(''code'', JNumber ''1008'')])"
  unfolding body_code_only_def by code_simp

lemma store_code_only:
  "store_GetResponseError (JObject [(''code'', JNumber ''1008'')]) zero_GetResponseError
     = (False, zero_GetResponseError\<lparr>ErrorCode := 1008\<rparr>)"
  by code_simp

lemma parse_message_number:
  "json_parse body_message_number = Some (JObject [(''message'', JNumber ''1008'')])"
  unfolding body_message_number_def by code_simp

lemma no_code_in_message_number: "\<not> has_member ''code'' [(''message'', JNumber ''1008'')]"
  by code_simp

lemma no_message_in_code_only: "\<not> has_member ''message'' [(''code'', JNumber ''1008'')]"
  by code_simp

text \<open>
  Claim C8, as amended. When the transport has answered with a failure status and the body
  is a JSON object whose members all fit the fields they name (as in \<^verbatim>\<open>{}\<close> and
  \<^verbatim>\<open>{"code":1008}\<close>), no decode error is produced: the client over \<^verbatim>\<open>*http.Client\<close> returns the
  decoded remote error, the client over \<^verbatim>\<open>BaseClient\<close> returns a fresh error whose text is
  the decoded message. A field that no member names keeps its zero value: without a
  \<^verbatim>\<open>message\<close> member the message is empty, without a \<^verbatim>\<open>code\<close> member the code is 0.
\<close>

theorem missing_members_are_zero:
  assumes "s < 200 \<or> 400 \<le> s"
    and "json_parse ret = Some (JObject ms)"
    and "store_GetResponseError (JObject ms) zero_GetResponseError = (False, e)"
  shows
    "(answered (snd (CreateContact_http L g cx rc)) s ret \<longrightarrow>
          fst (CreateContact_http L g cx rc) = Some (RemoteError e))
     \<and> (answered (snd (GetContacts_http L g cx rl)) s ret \<longrightarrow>
          snd (fst (GetContacts_http L g cx rl)) = Some (RemoteError e))
     \<and> (answered (snd (GetContact_http L g cx rg)) s ret \<longrightarrow>
          snd (fst (GetContact_http L g cx rg)) = Some (RemoteError e))
     \<and> (answered (snd (UpdateContact_http L g cx ru)) s ret \<longrightarrow>
          snd (fst (UpdateContact_http L g cx ru)) = Some (RemoteError e))
     \<and> (answered (snd (UpdateContactCustomFields_http L g cx rf)) s ret \<longrightarrow>
          snd (fst (UpdateContactCustomFields_http L g cx rf)) = Some (RemoteError e))
     \<and> (answered (snd (DeleteContact_http L g cx rd)) s ret \<longrightarrow>
          fst (DeleteContact_http L g cx rd) = Some (RemoteError e))
     \<and> (answered (snd (CreateContact_base L g' cx email name dayOfCycle campaignID customFields
           ipAddress)) s ret \<longrightarrow>
          fst (CreateContact_base L g' cx email name dayOfCycle campaignID customFields ipAddress)
            = Some (errors_New (Message e)))
     \<and> (answered (snd (GetContacts_base L g' cx queryHash fields' sortHash page perPage flags)) s
           ret \<longrightarrow>
          snd (fst (GetContacts_base L g' cx queryHash fields' sortHash page perPage flags))
            = Some (errors_New (Message e)))
     \<and> (answered (snd (GetContact_base L g' cx ID fields')) s ret \<longrightarrow>
          snd (fst (GetContact_base L g' cx ID fields')) = Some (errors_New (Message e)))
     \<and> (answered (snd (UpdateContact_base L g' cx ID newData)) s ret \<longrightarrow>
          snd (fst (UpdateContact_base L g' cx ID newData)) = Some (errors_New (Message e)))
     \<and> (answered (snd (UpdateContactCustomFields_base L g' cx ID customFields)) s ret \<longrightarrow>
          snd (fst (UpdateContactCustomFields_base L g' cx ID customFields))
            = Some (errors_New (Message e)))
     \<and> (answered (snd (DeleteContact_base L g' cx ID messageID ipAddress')) s ret \<longrightarrow>
          fst (DeleteContact_base L g' cx ID messageID ipAddress')
            = Some (errors_New (Message e)))
     \<and> (\<not> has_member ''message'' ms \<longrightarrow> Message e = [] \<and> Error (RemoteError e) = Some [])
     \<and> (\<not> has_member ''code'' ms \<longrightarrow> ErrorCode e = 0)"
proof -
  have r: "(200 \<le> s \<and> s < 400) = False" "(s < 200 \<or> 400 \<le> s) = True"
    using assms(1) by auto
  have u: "json_Unmarshal store_GetResponseError ret zero_GetResponseError = (None, e)"
    by (simp add: json_Unmarshal_def assms(2,3))
  have c: "checkGetResponseError s ret None = Some (RemoteError e)"
    by (simp add: check_failure [OF assms(1)] u)
  have p: "parseError ret = Some (errors_New (Message e))"
    by (simp add: parseError_eq u)
  have e: "e = snd (foldl store_member (False, zero_GetResponseError) ms)"
    using assms(3) by (simp add: store_GetResponseError_def)
  show ?thesis
  proof (intro conjI impI, goal_cases)
    case 1
    show ?case by (simp add: CreateContact_http_error [OF 1] r c p)
  next
    case 2
    show ?case by (simp add: GetContacts_http_error [OF 2] r c p)
  next
    case 3
    show ?case by (simp add: GetContact_http_error [OF 3] r c p)
  next
    case 4
    show ?case by (simp add: UpdateContact_http_error [OF 4] r c p)
  next
    case 5
    show ?case by (simp add: UpdateContactCustomFields_http_error [OF 5] r c p)
  next
    case 6
    show ?case by (simp add: DeleteContact_http_error [OF 6] r c p)
  next
    case 7
    show ?case by (simp add: CreateContact_base_error [OF 7] r c p)
  next
    case 8
    show ?case by (simp add: GetContacts_base_error [OF 8] r c p)
  next
    case 9
    show ?case by (simp add: GetContact_base_error [OF 9] r c p)
  next
    case 10
    show ?case by (simp add: UpdateContact_base_error [OF 10] r c p)
  next
    case 11
    show ?case by (simp add: UpdateContactCustomFields_base_error [OF 11] r c p)
  next
    case 12
    show ?case by (simp add: DeleteContact_base_error [OF 12] r c p)
  next
    case 13
    from 13 show ?case by (simp add: e absent_message zero_GetResponseError_def)
  next
    case 14
    from 14 show ?case by (simp add: e absent_message zero_GetResponseError_def)
  next
    case 15
    from 15 show ?case by (simp add: e absent_code zero_GetResponseError_def)
  qed
qed

theorem missing_members_are_zero_witness:
  "((409::int) < 200 \<or> (400::int) \<le> 409)
   \<and> json_parse body_code_only = Some (JObject [(''code'', JNumber ''1008'')])
   \<and> store_GetResponseError (JObject [(''code'', JNumber ''1008'')]) zero_GetResponseError =
       (False, zero_GetResponseError\<lparr>ErrorCode := 1008\<rparr>)
   \<and> \<not> has_member ''message'' [(''code'', JNumber ''1008'')]
   \<and> answered (snd (GetContact_http (test_lib 409 body_code_only) (test_client_http 409
       body_code_only) None (GetContactRequest ''foo'' []))) 409 body_code_only
   \<and> snd (fst (GetContact_http (test_lib 409 body_code_only) (test_client_http 409 body_code_only)
       None (GetContactRequest ''foo'' []))) = Some (RemoteError (zero_GetResponseError\<lparr>ErrorCode
       := 1008\<rparr>))
   \<and> Error (RemoteError (zero_GetResponseError\<lparr>ErrorCode := 1008\<rparr>)) = Some []
   \<and> answered (snd (DeleteContact_base (test_lib 409 body_code_only) (test_client_base 409
       body_code_only) None ''123'' ''hello world'' ''127.0.0.1'')) 409 body_code_only
   \<and> fst (DeleteContact_base (test_lib 409 body_code_only) (test_client_base 409 body_code_only)
       None ''123'' ''hello world'' ''127.0.0.1'') = Some (errors_New [])"
  using missing_members_are_zero [where L = "test_lib 409 body_code_only" and g =
      "test_client_http 409 body_code_only" and g' = "test_client_base 409 body_code_only" and cx
      = None and s = 409 and ret = "body_code_only" and rg = "GetContactRequest ''foo'' []" and ms
      = "[(''code'', JNumber ''1008'')]" and e = "zero_GetResponseError\<lparr>ErrorCode := 1008\<rparr>" and ID
      = "''123''" and messageID = "''hello world''" and ipAddress' = "''127.0.0.1''"]
  by (simp add: test_GetContact_http test_DeleteContact_base parse_code_only store_code_only
      no_message_in_code_only)

text \<open>
  The claim as stated fails: the body \<^verbatim>\<open>{"message":1008}\<close>, which the tests write with status
  409, is well-formed JSON without a \<^verbatim>\<open>code\<close> member, and the call returns a decode error,
  not a remote error.
\<close>

theorem missing_members_are_zero_counterexample:
  "json_parse body_message_number = Some (JObject [(''message'', JNumber ''1008'')])
   \<and> \<not> has_member ''code'' [(''message'', JNumber ''1008'')]
   \<and> fst (DeleteContact_http (test_lib 409 body_message_number) (test_client_http 409
       body_message_number) None (DeleteContactRequest ''123'' ''hello world'' ''127.0.0.1'')) =
       Some (JsonError UnmarshalTypeError)
   \<and> fst (DeleteContact_base (test_lib 409 body_message_number) (test_client_base 409
       body_message_number) None ''123'' ''hello world'' ''127.0.0.1'') = Some (errors_New
       ''could not unmarshal error response'')"
  by (simp add: parse_message_number no_code_in_message_number
      DeleteContact_http_error [OF test_DeleteContact_http]
      DeleteContact_base_error [OF test_DeleteContact_base]
      checkGetResponseError_def parseError_eq unmarshal_message_number)

section \<open>The slice that \<^verbatim>\<open>GetContacts\<close> returns\<close>

lemma store_slice_flagged:
  "store_slice dec z j (Some xs) = (True, r) \<Longrightarrow> r \<noteq> None"
  by (cases j) (auto simp: store_slice_def Let_def)

lemma unmarshal_slice_error:
  "json_Unmarshal (store_slice dec z) ret (Some xs) = (Some e, r) \<Longrightarrow> r \<noteq> None"
  by (auto simp: json_Unmarshal_def split: option.splits prod.splits if_splits
      dest: store_slice_flagged)

text \<open>
  Claim C9, as amended. \<^verbatim>\<open>GetContacts\<close> of \<^verbatim>\<open>client.go\<close> returns a non-nil slice whenever it
  returns an error. The slice is empty, and an error comes with it, on a transport error,
  on a failure status, and when the body is not well-formed JSON.
\<close>

theorem GetContacts_slice:
  assumes "fst (MakeRequest L (c_base g) cx ''GET'' ''/v3/contacts''
      (contacts_query queryHash fields' sortHash page perPage flags) (buildDefaultHeaders g) None)
      = (s, ret, err)"
  shows
    "(snd (fst (GetContacts_base L g cx queryHash fields' sortHash page perPage flags)) \<noteq> None
        \<longrightarrow> fst (fst (GetContacts_base L g cx queryHash fields' sortHash page perPage flags)) \<noteq> None)
     \<and> (err \<noteq> None \<or> s < 200 \<or> 400 \<le> s \<or> json_parse ret = None
        \<longrightarrow> fst (fst (GetContacts_base L g cx queryHash fields' sortHash page perPage flags)) = Some []
          \<and> snd (fst (GetContacts_base L g cx queryHash fields' sortHash page perPage flags)) \<noteq> None)"
proof -
  obtain exchanges where m: "MakeRequest L (c_base g) cx ''GET'' ''/v3/contacts''
      (contacts_query queryHash fields' sortHash page perPage flags) (buildDefaultHeaders g) None
      = ((s, ret, err), exchanges)"
    using assms by (metis prod.collapse)
  show ?thesis
  proof (cases err)
    case (Some e)
    with m show ?thesis by (simp add: GetContacts_base_def)
  next
    case None
    show ?thesis
    proof (cases "s < 200 \<or> 400 \<le> s")
      case True
      with m None show ?thesis
        by (auto simp: GetContacts_base_def parseError_not_None)
    next
      case False
      obtain e r where u: "json_Unmarshal (store_slice (store_Contact L) (zero_Contact L)) ret (Some [])
          = (e, r)" by (metis prod.collapse)
      have res: "fst (GetContacts_base L g cx queryHash fields' sortHash page perPage flags)
          = (r, payload_error e)"
        using m None False u by (auto simp: GetContacts_base_def payload_error_def split: option.splits)
      have nonnil: "e \<noteq> None \<longrightarrow> r \<noteq> None"
        using u unmarshal_slice_error by fastforce
      have syn: "json_parse ret = None \<longrightarrow> r = Some [] \<and> e \<noteq> None"
        using u by (auto simp: json_Unmarshal_def)
      show ?thesis
        using None False nonnil syn by (auto simp: res payload_error_def split: option.splits)
    qed
  qed
qed

theorem GetContacts_slice_witness:
  "fst (MakeRequest (test_lib 500 body_not_json) (c_base (test_client_base 500 body_not_json)) None
      ''GET'' ''/v3/contacts'' (contacts_query [(''campaignId'', ''123'')] [''name'', ''email'']
         [(''name'', ''asc'')] 1 10 None)
      (buildDefaultHeaders (test_client_base 500 body_not_json)) None) = (500, body_not_json, None)
   \<and> fst (GetContacts_base (test_lib 500 body_not_json) (test_client_base 500 body_not_json) None
        [(''campaignId'', ''123'')] [''name'', ''email''] [(''name'', ''asc'')] 1 10 None)
      = (Some [], Some (errors_New ''could not unmarshal error response''))"
proof -
  let ?R = "GetContacts_base (test_lib 500 body_not_json) (test_client_base 500 body_not_json) None
        [(''campaignId'', ''123'')] [''name'', ''email''] [(''name'', ''asc'')] 1 10 None"
  have m: "fst (MakeRequest (test_lib 500 body_not_json) (c_base (test_client_base 500 body_not_json)) None
      ''GET'' ''/v3/contacts'' (contacts_query [(''campaignId'', ''123'')] [''name'', ''email'']
         [(''name'', ''asc'')] 1 10 None)
      (buildDefaultHeaders (test_client_base 500 body_not_json)) None) = (500, body_not_json, None)"
    by (simp add: test_MakeRequest)
  from GetContacts_slice [OF m] have "fst (fst ?R) = Some []" by simp
  moreover have "snd (fst ?R) = Some (errors_New ''could not unmarshal error response'')"
    by (simp add: GetContacts_base_error [OF test_GetContacts_base] parseError_eq unmarshal_not_json)
  ultimately have "fst ?R = (Some [], Some (errors_New ''could not unmarshal error response''))"
    by (metis prod.collapse)
  with m show ?thesis by simp
qed

text \<open>
  The claim as stated fails on two paths. With status 200 and the body \<^verbatim>\<open>null\<close>, the decoder
  sets the slice to nil and reports no error: \<^verbatim>\<open>GetContacts\<close> returns the nil slice. With
  status 200 and the body \<^verbatim>\<open>[1]\<close>, decoding fails after the slice has grown:
  \<^verbatim>\<open>GetContacts\<close> returns a slice of length one together with \<^verbatim>\<open>ErrCouldNotUnmarshal\<close>.
\<close>

theorem GetContacts_slice_counterexample:
  "fst (GetContacts_base (test_lib 200 body_null) (test_client_base 200 body_null) None
      [(''campaignId'', ''123'')] [''name'', ''email''] [(''name'', ''asc'')] 1 10 None)
     = (None, None)
   \<and> fst (GetContacts_base (test_lib 200 body_array_of_number) (test_client_base 200 body_array_of_number)
      None [(''campaignId'', ''123'')] [''name'', ''email''] [(''name'', ''asc'')] 1 10 None)
     = (Some [(None, None)], Some ErrCouldNotUnmarshal)"
proof -
  have a: "json_Unmarshal (store_slice store_test_Contact (None, None)) body_null (Some [])
      = (None, None)"
    by (simp add: json_Unmarshal_def parse_null store_slice_def)
  have b: "json_Unmarshal (store_slice store_test_Contact (None, None)) body_array_of_number (Some [])
      = (Some UnmarshalTypeError, Some [(None, None)])"
    by (simp add: json_Unmarshal_def parse_array_of_number store_slice_def store_test_Contact_def)
  have z: "zero_Contact (test_lib s b) = (None, None)" "store_Contact (test_lib s b) = store_test_Contact"
    for s b by (simp_all add: test_lib_def)
  show ?thesis
    by (simp add: GetContacts_base_result [OF test_GetContacts_base] z a b payload_error_def)
qed

end
